theory Spec2Isabelle
  imports Complex_Main
begin

section \<open>PDF image optimisation pipeline: data model\<close>

text \<open>
  The development embeds \<^verbatim>\<open>src/compression/pdf_processor.py\<close> and
  \<^verbatim>\<open>src/compression/image_optimizer.py\<close>.

  Python \<^verbatim>\<open>bytes\<close> are byte strings; Python integers are unbounded and are
  modelled by \<^typ>\<open>int\<close>. A Python float is modelled by the rational it denotes, and
  every float operation of the code by the exact operation followed by a rounding
  function \<open>rnd\<close>, which is a parameter of the model. An integer operand of a float
  operation is converted to a float: the conversion is written out in the dimension
  planner, whose integers are arguments; a length of a byte string is below \<open>2 ^ 53\<close>
  and is taken as it is. Functions whose Python name starts with an underscore drop it.
\<close>

type_synonym bytes = string

text \<open>
  Exceptions are values. \<open>ValueError\<close> and \<open>AttributeError\<close> are the two
  classes that \<^verbatim>\<open>compute_target_dimensions\<close> names in its handlers;
  \<open>OtherException\<close> stands for every other subclass of \<^verbatim>\<open>Exception\<close>.
\<close>

datatype exn =
    ValueError
  | AttributeError
  | ZeroDivisionError
  | OverflowError
  | RuntimeError
  | OtherException

text \<open>Python's \<^verbatim>\<open>int(x)\<close> on a float truncates towards zero.\<close>

definition py_int :: "rat \<Rightarrow> int" where
  "py_int x = (if 0 \<le> x then \<lfloor>x\<rfloor> else \<lceil>x\<rceil>)"

text \<open>
  What the properties below need of the rounding of float operations: it is monotone, and
  it is exact on the integers up to \<open>2 ^ 53\<close>. Rounding to the nearest double is such
  a function, and so is exact arithmetic, which the samples use.
\<close>

definition float_rounding :: "(rat \<Rightarrow> rat) \<Rightarrow> bool" where
  "float_rounding rnd \<longleftrightarrow>
     (\<forall>x y. x \<le> y \<longrightarrow> rnd x \<le> rnd y)
     \<and> (\<forall>n::int. \<bar>n\<bar> \<le> 2 ^ 53 \<longrightarrow> rnd (of_int n) = of_int n)"

definition exact_arithmetic :: "rat \<Rightarrow> rat" where
  "exact_arithmetic x = x"

text \<open>
  The range of a float. The largest finite double is \<open>2 ^ 1024 - 2 ^ 971\<close>; rounding
  to nearest, an exact result of magnitude \<open>2 ^ 1024 - 2 ^ 970\<close> or more is beyond the
  range. The result of an operation within the range is a float within the range.
\<close>

definition float_overflow :: "rat \<Rightarrow> bool" where
  "float_overflow x \<longleftrightarrow> 2 ^ 1024 - 2 ^ 970 \<le> \<bar>x\<bar>"

definition float_range :: "(rat \<Rightarrow> rat) \<Rightarrow> bool" where
  "float_range rnd \<longleftrightarrow> (\<forall>x. \<not> float_overflow x \<longrightarrow> \<not> float_overflow (rnd x))"

text \<open>
  The product \<^verbatim>\<open>n * x\<close> of an integer and a float, as the argument of
  \<^verbatim>\<open>int\<close> or \<^verbatim>\<open>math.floor\<close>. The integer is converted to a float first, which
  raises \<open>OverflowError\<close> beyond the range and rounds otherwise. A product beyond the
  range is an infinity, on which \<^verbatim>\<open>int\<close> and \<^verbatim>\<open>math.floor\<close> raise
  \<open>OverflowError\<close>.
\<close>

definition int_mul_float :: "(rat \<Rightarrow> rat) \<Rightarrow> int \<Rightarrow> rat \<Rightarrow> exn + rat" where
  "int_mul_float rnd n x =
     (if float_overflow (of_int n) then Inl OverflowError
      else if float_overflow (rnd (of_int n) * x) then Inl OverflowError
      else Inr (rnd (rnd (of_int n) * x)))"

text \<open>
  The true division \<^verbatim>\<open>a / b\<close> of two integers: \<open>ZeroDivisionError\<close> on a zero
  divisor, \<open>OverflowError\<close> when the quotient is beyond the range of a float, and the
  rounded quotient otherwise.
\<close>

definition int_true_div :: "(rat \<Rightarrow> rat) \<Rightarrow> int \<Rightarrow> int \<Rightarrow> exn + rat" where
  "int_true_div rnd a b =
     (if b = 0 then Inl ZeroDivisionError
      else if float_overflow (of_int a / of_int b) then Inl OverflowError
      else Inr (rnd (of_int a / of_int b)))"

text \<open>
  \<^verbatim>\<open>str.lower\<close> and \<^verbatim>\<open>str.upper\<close> on the ASCII letters; format extensions
  are ASCII.
\<close>

definition lower_char :: "char \<Rightarrow> char" where
  "lower_char c =
     (case map_of (zip ''ABCDEFGHIJKLMNOPQRSTUVWXYZ'' ''abcdefghijklmnopqrstuvwxyz'') c of
        Some d \<Rightarrow> d
      | None \<Rightarrow> c)"

definition upper_char :: "char \<Rightarrow> char" where
  "upper_char c =
     (case map_of (zip ''abcdefghijklmnopqrstuvwxyz'' ''ABCDEFGHIJKLMNOPQRSTUVWXYZ'') c of
        Some d \<Rightarrow> d
      | None \<Rightarrow> c)"

definition lower :: "string \<Rightarrow> string" where
  "lower s = map lower_char s"

definition upper :: "string \<Rightarrow> string" where
  "upper s = map upper_char s"

subsection \<open>The host document model\<close>

text \<open>
  An entry of \<^verbatim>\<open>page.get_images(full=True)\<close>: the code reads item 0, the
  object id, and item 1, the object id of the soft mask (0 when there is none), and
  hands the whole entry to \<^verbatim>\<open>page.get_image_bbox\<close>.
\<close>

record image_info =
  xref :: int
  smask :: int

text \<open>
  The dictionary returned by \<^verbatim>\<open>doc.extract_image(xref)\<close>. The key
  \<^verbatim>\<open>"bpc"\<close> is read with \<^verbatim>\<open>.get("bpc", 8)\<close>, so it may be absent.
\<close>

record base_image =
  image_bytes :: bytes
  ext :: string
  width :: int
  height :: int
  bpc :: "int option"

text \<open>The \<^verbatim>\<open>width\<close> and \<^verbatim>\<open>height\<close> properties of a \<^verbatim>\<open>fitz.Rect\<close>, in points.\<close>

record rect =
  rect_width :: rat
  rect_height :: rat

text \<open>
  \<^verbatim>\<open>page.get_image_bbox\<close> returns a rectangle, or a tuple whose first component
  is the rectangle.
\<close>

datatype bbox_candidate =
    BareRect rect
  | TupleRect rect

subsection \<open>Decoded images\<close>

text \<open>
  What \<^verbatim>\<open>_has_transparency\<close> reads from a decoded PIL image: the mode, the
  first component of \<^verbatim>\<open>image.getchannel("A").getextrema()\<close>, and
  \<^verbatim>\<open>image.info.get("transparency")\<close>. The last two are dynamically typed.
\<close>

datatype pyval =
    PyInt int
  | PyFloat rat
  | PyBytes bytes
  | PyOther

record pil_image =
  mode :: string
  alpha_lowest :: pyval
  info_transparency :: "pyval option"

section \<open>Transparency detector\<close>

definition has_transparency :: "pil_image \<Rightarrow> bool \<Rightarrow> bool" where
  "has_transparency img smask_present =
     (if smask_present then True
      else if mode img = ''RGBA'' \<or> mode img = ''LA'' then
        (case alpha_lowest img of
           PyInt n \<Rightarrow> n < 255
         | PyFloat x \<Rightarrow> py_int x < 255
         | _ \<Rightarrow> False)
      else if mode img = ''P'' then
        (case info_transparency img of
           None \<Rightarrow> False
         | Some (PyBytes b) \<Rightarrow> True
         | Some (PyInt n) \<Rightarrow> n \<noteq> 255
         | Some (PyFloat x) \<Rightarrow> x \<noteq> 255
         | Some PyOther \<Rightarrow> True)
      else False)"

section \<open>Dimension planner\<close>

text \<open>
  The rounding of float operations is the parameter \<open>rnd\<close>; \<^verbatim>\<open>1e-3\<close> is the
  rounded constant. The page's bounding-box query is passed as the function
  \<open>get_image_bbox\<close>, so that the planner decides whether it is called at all. An
  exception of the query other than \<open>ValueError\<close> and \<open>AttributeError\<close> has no
  handler and leaves the planner. The extents of the box are finite floats. The four
  products of an integer and a float and the two true divisions raise as described
  above; the division by \<^verbatim>\<open>72.0\<close> cannot leave the range.
\<close>

definition compute_target_dimensions ::
  "(rat \<Rightarrow> rat) \<Rightarrow> (nat \<Rightarrow> image_info \<Rightarrow> exn + bbox_candidate) \<Rightarrow> nat \<Rightarrow> image_info
     \<Rightarrow> int \<Rightarrow> int \<Rightarrow> int option \<Rightarrow> exn + (int \<times> int)" where
  "compute_target_dimensions rnd get_image_bbox page info original_width original_height
       max_dpi =
     (case max_dpi of
        None \<Rightarrow> Inr (original_width, original_height)
      | Some dpi \<Rightarrow>
          if dpi = 0 \<or> dpi \<le> 0 then Inr (original_width, original_height)
          else
            (case get_image_bbox page info of
               Inl e \<Rightarrow>
                 if e = ValueError then Inr (original_width, original_height)
                 else if e = AttributeError then Inr (original_width, original_height)
                 else Inl e
             | Inr bbox_candidate \<Rightarrow>
                 let bbox = (case bbox_candidate of BareRect r \<Rightarrow> r | TupleRect r \<Rightarrow> r);
                     width_inches = max (rnd (rect_width bbox / 72)) (rnd (1 / 1000));
                     height_inches = max (rnd (rect_height bbox / 72)) (rnd (1 / 1000))
                 in
                   (case int_mul_float rnd dpi width_inches of
                      Inl e \<Rightarrow> Inl e
                    | Inr width_px \<Rightarrow>
                   (case int_mul_float rnd dpi height_inches of
                      Inl e \<Rightarrow> Inl e
                    | Inr height_px \<Rightarrow>
                        let max_width_px = max (py_int width_px) 1;
                            max_height_px = max (py_int height_px) 1
                        in
                          if original_width \<le> max_width_px \<and> original_height \<le> max_height_px
                          then Inr (original_width, original_height)
                          else
                            (case int_true_div rnd max_width_px original_width of
                               Inl e \<Rightarrow> Inl e
                             | Inr scale_w \<Rightarrow>
                            (case int_true_div rnd max_height_px original_height of
                               Inl e \<Rightarrow> Inl e
                             | Inr scale_h \<Rightarrow>
                                 let scale = min scale_w scale_h in
                                 (case int_mul_float rnd original_width scale of
                                    Inl e \<Rightarrow> Inl e
                                  | Inr target_w \<Rightarrow>
                                 (case int_mul_float rnd original_height scale of
                                    Inl e \<Rightarrow> Inl e
                                  | Inr target_h \<Rightarrow>
                                      Inr (max 1 \<lfloor>target_w\<rfloor>, max 1 \<lfloor>target_h\<rfloor>)))))))))"

text \<open>
  The planner in the words of the specification: the per-axis pixel maximum is the DPI
  ceiling times the physical size in inches (at least 0.001 in), floored, at least 1.
\<close>

definition spec_axis_max :: "(rat \<Rightarrow> rat) \<Rightarrow> int \<Rightarrow> rat \<Rightarrow> int" where
  "spec_axis_max rnd dpi extent =
     max 1 \<lfloor>rnd (of_int dpi * max (rnd (extent / 72)) (rnd (1 / 1000)))\<rfloor>"

definition spec_scale :: "(rat \<Rightarrow> rat) \<Rightarrow> int \<Rightarrow> int \<Rightarrow> int \<Rightarrow> int \<Rightarrow> rat" where
  "spec_scale rnd max_w max_h original_w original_h =
     min (rnd (of_int max_w / of_int original_w)) (rnd (of_int max_h / of_int original_h))"

definition bbox_rect :: "bbox_candidate \<Rightarrow> rect" where
  "bbox_rect c = (case c of BareRect r \<Rightarrow> r | TupleRect r \<Rightarrow> r)"

section \<open>Compression statistics\<close>

record compression_stats =
  stat_original_size :: int
  stat_compressed_size :: int
  stat_reduction_bytes :: int
  stat_reduction_percent :: rat

definition get_compression_stats ::
  "(rat \<Rightarrow> rat) \<Rightarrow> bytes \<Rightarrow> bytes \<Rightarrow> exn + compression_stats" where
  "get_compression_stats rnd original_bytes compressed_bytes =
     (let original_size = int (length original_bytes);
          compressed_size = int (length compressed_bytes);
          reduction_bytes = original_size - compressed_size
      in if original_size = 0 then Inl ZeroDivisionError
         else Inr \<lparr>stat_original_size = original_size,
                   stat_compressed_size = compressed_size,
                   stat_reduction_bytes = reduction_bytes,
                   stat_reduction_percent =
                     rnd (rnd (of_int reduction_bytes / of_int original_size) * 100)\<rparr>)"

text \<open>Stand-ins for the page's bounding-box query, as the tests use a mock page.\<close>

definition bbox_raises :: "exn \<Rightarrow> nat \<Rightarrow> image_info \<Rightarrow> exn + bbox_candidate" where
  "bbox_raises e page info = Inl e"

definition bbox_returns :: "rat \<Rightarrow> rat \<Rightarrow> nat \<Rightarrow> image_info \<Rightarrow> exn + bbox_candidate" where
  "bbox_returns w h page info = Inr (BareRect \<lparr>rect_width = w, rect_height = h\<rparr>)"

section \<open>Optimisation cache, backends and document state\<close>

record ImageOptimizationResult =
  optimized :: bool
  data :: "bytes option"
  original_size :: int
  optimized_size :: int

text \<open>
  What the primary backend is asked to write: \<^verbatim>\<open>write_to_buffer(".jpg", Q=q, ...)\<close>,
  \<^verbatim>\<open>write_to_buffer(".png", compression=6)\<close>, or \<^verbatim>\<open>write_to_buffer("." + fmt)\<close>.
\<close>

datatype vips_save =
    VipsJpeg int
  | VipsPng int
  | VipsOther string

text \<open>The keyword arguments of \<^verbatim>\<open>pil_image.save\<close>.\<close>

datatype pil_kwargs =
    JpegKwargs int
  | PngKwargs int
  | NoKwargs

record pil_request =
  pil_source :: bytes
  pil_resize :: "(int \<times> int) option"
  pil_mode :: string
  pil_format :: string
  pil_save_kwargs :: pil_kwargs

text \<open>
  The calls that leave the core are logged: one event per call of a backend's
  resize-and-encode and per call of \<^verbatim>\<open>page.replace_image\<close>, whether the call
  returns or raises.
\<close>

datatype event =
    VipsEncode bytes "(rat \<times> rat) option" vips_save
  | PilEncode pil_request
  | ReplaceImage int bytes

text \<open>
  The external collaborators. Each is a function of its arguments and may raise.
  \<^item> \<open>float_round\<close>: the rounding of float operations;
  \<^item> \<open>sha1\<close>: \<^verbatim>\<open>hashlib.sha1(b).digest()\<close>;
  \<^item> \<open>get_image_bbox\<close>: \<^verbatim>\<open>page.get_image_bbox(image_info)\<close>;
  \<^item> \<open>pil_open\<close>: \<^verbatim>\<open>Image.open\<close> followed by \<^verbatim>\<open>load\<close>;
  \<^item> \<open>pyvips_available\<close>: the test \<^verbatim>\<open>pyvips is None\<close>;
  \<^item> \<open>vips_new_from_buffer\<close>: the exception of \<^verbatim>\<open>pyvips.Image.new_from_buffer\<close>, if any;
  \<^item> \<open>vips_encode\<close>: \<^verbatim>\<open>img.resize\<close>, \<^verbatim>\<open>img.colourspace\<close> and
    \<^verbatim>\<open>img.write_to_buffer\<close> of the primary backend;
  \<^item> \<open>pil_encode\<close>: \<^verbatim>\<open>resize\<close>, \<^verbatim>\<open>convert\<close> and \<^verbatim>\<open>save\<close> of the
    secondary backend;
  \<^item> \<open>replace_image_raises\<close>: the exception of \<^verbatim>\<open>page.replace_image\<close>, if any.
\<close>

record env =
  float_round :: "rat \<Rightarrow> rat"
  sha1 :: "bytes \<Rightarrow> bytes"
  get_image_bbox :: "nat \<Rightarrow> image_info \<Rightarrow> exn + bbox_candidate"
  pil_open :: "bytes \<Rightarrow> exn + pil_image"
  pyvips_available :: bool
  vips_new_from_buffer :: "bytes \<Rightarrow> exn option"
  vips_encode :: "bytes \<Rightarrow> (rat \<times> rat) option \<Rightarrow> vips_save \<Rightarrow> exn + bytes"
  pil_encode :: "pil_request \<Rightarrow> exn + bytes"
  replace_image_raises :: "int \<Rightarrow> bytes \<Rightarrow> exn option"

text \<open>
  The mutable state of one run: the image objects of the document by object id, the
  optimisation cache by content digest, and the log of external calls.
\<close>

record state =
  store :: "int \<rightharpoonup> base_image"
  cache :: "bytes \<rightharpoonup> ImageOptimizationResult"
  trace :: "event list"

record options =
  image_quality :: int
  max_dpi :: "int option"
  skip_small_images :: bool
  small_image_threshold :: int
  convert_large_pngs_to_jpeg :: bool
  png_to_jpeg_threshold :: int

text \<open>\<^verbatim>\<open>doc.extract_image(xref)\<close>: an object id that is not an image raises.\<close>

definition extract_image :: "state \<Rightarrow> int \<Rightarrow> exn + base_image" where
  "extract_image st x = (case store st x of None \<Rightarrow> Inl ValueError | Some b \<Rightarrow> Inr b)"

text \<open>
  \<^verbatim>\<open>page.replace_image(xref, stream=...)\<close>: the call is logged; when it returns,
  the stored bytes of the object are the new stream.
\<close>

definition replace_image :: "env \<Rightarrow> int \<Rightarrow> bytes \<Rightarrow> state \<Rightarrow> (exn + unit) \<times> state" where
  "replace_image E x stream st =
     (let st1 = st\<lparr>trace := trace st @ [ReplaceImage x stream]\<rparr> in
      case store st x of
        None \<Rightarrow> (Inl ValueError, st1)
      | Some b \<Rightarrow>
          (case replace_image_raises E x stream of
             Some e \<Rightarrow> (Inl e, st1)
           | None \<Rightarrow> (Inr (), st1\<lparr>store := (store st)(x \<mapsto> b\<lparr>image_bytes := stream\<rparr>)\<rparr>)))"

section \<open>Image optimiser\<close>

text \<open>
  \<^verbatim>\<open>cache[digest] = ImageOptimizationResult(False, None, original_size, original_size)\<close>
\<close>

definition record_unoptimized :: "bytes \<Rightarrow> int \<Rightarrow> state \<Rightarrow> state" where
  "record_unoptimized digest osize st =
     st\<lparr>cache := (cache st)(digest \<mapsto>
        \<lparr>optimized = False, data = None, original_size = osize, optimized_size = osize\<rparr>)\<rparr>"

text \<open>
  The branch \<^verbatim>\<open>if cached:\<close> (lines 129--133 and 248--252). An instance of the
  dataclass is always truthy.
\<close>

definition replay_cached ::
  "env \<Rightarrow> int \<Rightarrow> ImageOptimizationResult \<Rightarrow> state \<Rightarrow> (exn + (bool \<times> int \<times> int)) \<times> state" where
  "replay_cached E x cached st =
     (case (optimized cached, data cached) of
        (True, Some stream) \<Rightarrow>
          (case replace_image E x stream st of
             (Inl e, st') \<Rightarrow> (Inl e, st')
           | (Inr u, st') \<Rightarrow> (Inr (True, original_size cached, optimized_size cached), st'))
      | _ \<Rightarrow> (Inr (False, original_size cached, original_size cached), st))"

text \<open>The float \<^verbatim>\<open>original_size * 0.98\<close>, with the rounded constant.\<close>

definition gate_bound :: "(rat \<Rightarrow> rat) \<Rightarrow> int \<Rightarrow> rat" where
  "gate_bound rnd osize = rnd (of_int osize * rnd (98 / 100))"

text \<open>The acceptance gate (lines 211--223 and 299--311).\<close>

definition acceptance_gate ::
  "env \<Rightarrow> int \<Rightarrow> bytes \<Rightarrow> int \<Rightarrow> bytes \<Rightarrow> state \<Rightarrow> (exn + (bool \<times> int \<times> int)) \<times> state" where
  "acceptance_gate E x digest osize optimized_bytes st =
     (let nsize = int (length optimized_bytes) in
      if gate_bound (float_round E) osize \<le> of_int nsize
      then (Inr (False, osize, osize), record_unoptimized digest osize st)
      else
        (case replace_image E x optimized_bytes st of
           (Inl e, st') \<Rightarrow> (Inl e, st')
         | (Inr u, st') \<Rightarrow>
             (Inr (True, osize, nsize),
              st'\<lparr>cache := (cache st')(digest \<mapsto>
                 \<lparr>optimized = True, data = Some optimized_bytes,
                  original_size = osize, optimized_size = nsize\<rparr>)\<rparr>)))"

text \<open>
  Lines 79--105 of \<^verbatim>\<open>_optimize_image_with_pyvips\<close>: the output format and the
  arguments of \<^verbatim>\<open>write_to_buffer\<close>.
\<close>

definition vips_save_plan ::
  "string \<Rightarrow> bool \<Rightarrow> int \<Rightarrow> bool \<Rightarrow> int \<Rightarrow> int \<Rightarrow> int \<Rightarrow> vips_save" where
  "vips_save_plan image_ext has_alpha quality convert_pngs png_threshold osize bits =
     (let should_convert_png =
            (image_ext = ''png'' \<and> convert_pngs \<and> \<not> has_alpha
               \<and> png_threshold \<le> osize \<and> 8 \<le> bits);
          save_format = (if should_convert_png then ''jpeg'' else image_ext)
      in if save_format = ''jpeg'' \<or> save_format = ''jpg'' then VipsJpeg quality
         else if save_format = ''png'' then VipsPng 6
         else VipsOther save_format)"

definition optimize_image_with_pyvips ::
  "env \<Rightarrow> bytes \<Rightarrow> string \<Rightarrow> int \<Rightarrow> int \<Rightarrow> int \<Rightarrow> int \<Rightarrow> bool \<Rightarrow> int \<Rightarrow> bool \<Rightarrow> int \<Rightarrow> int \<Rightarrow> int
     \<Rightarrow> state \<Rightarrow> (exn + bytes) \<times> state" where
  "optimize_image_with_pyvips E ibytes image_ext ow oh tw th has_alpha quality
       convert_pngs png_threshold osize bits st =
     (if \<not> pyvips_available E then (Inl RuntimeError, st)
      else
        (case vips_new_from_buffer E ibytes of
           Some e \<Rightarrow> (Inl e, st)
         | None \<Rightarrow>
             let needs_resize = ((tw, th) \<noteq> (ow, oh)) in
             if needs_resize \<and> (ow = 0 \<or> oh = 0) then (Inl ZeroDivisionError, st)
             else
               let resize = (if needs_resize
                             then Some (float_round E (of_int tw / of_int ow),
                                        float_round E (of_int th / of_int oh))
                             else None);
                   save = vips_save_plan image_ext has_alpha quality convert_pngs
                            png_threshold osize bits
               in (vips_encode E ibytes resize save,
                   st\<lparr>trace := trace st @ [VipsEncode ibytes resize save]\<rparr>)))"

text \<open>
  Lines 171--205 of \<^verbatim>\<open>_optimize_image_with_pil\<close>: the mode conversions, the output
  format and the arguments of \<^verbatim>\<open>save\<close>.
\<close>

definition pil_save_plan ::
  "bytes \<Rightarrow> string \<Rightarrow> string \<Rightarrow> bool \<Rightarrow> (int \<times> int) option \<Rightarrow> int \<Rightarrow> bool \<Rightarrow> int \<Rightarrow> int \<Rightarrow> int
     \<Rightarrow> pil_request" where
  "pil_save_plan ibytes image_ext image_mode has_alpha resize quality convert_pngs
       png_threshold osize bits =
     (let should_convert_png =
            (convert_pngs \<and> \<not> has_alpha \<and> png_threshold \<le> osize \<and> 8 \<le> bits);
          mode1 =
            (if image_ext = ''png'' then
               (if should_convert_png then
                  (if image_mode \<noteq> ''RGB'' \<and> image_mode \<noteq> ''L'' then ''RGB'' else image_mode)
                else if image_mode = ''P'' \<and> \<not> has_alpha then ''RGB''
                else image_mode)
             else image_mode);
          save_format =
            (if image_ext = ''png'' \<and> should_convert_png then ''jpeg'' else image_ext);
          mode2 =
            (if save_format = ''jpeg'' \<and> mode1 \<noteq> ''RGB'' \<and> mode1 \<noteq> ''L'' then ''RGB''
             else mode1);
          format_name =
            (if save_format = ''jpeg'' then ''JPEG''
             else if save_format = ''png'' then ''PNG''
             else upper image_ext);
          save_kwargs =
            (if save_format = ''jpeg'' then JpegKwargs quality
             else if save_format = ''png'' then PngKwargs 6
             else NoKwargs)
      in \<lparr>pil_source = ibytes, pil_resize = resize, pil_mode = mode2,
          pil_format = format_name, pil_save_kwargs = save_kwargs\<rparr>)"

text \<open>
  Lines 157--209 of \<^verbatim>\<open>_optimize_image_with_pil\<close>: decode, detect transparency,
  resize, convert and save.
\<close>

definition pil_stage ::
  "env \<Rightarrow> bytes \<Rightarrow> string \<Rightarrow> int \<Rightarrow> int \<Rightarrow> int \<Rightarrow> int \<Rightarrow> bool \<Rightarrow> int \<Rightarrow> bool \<Rightarrow> int \<Rightarrow> int \<Rightarrow> int
     \<Rightarrow> state \<Rightarrow> (exn + bytes) \<times> state" where
  "pil_stage E ibytes image_ext ow oh tw th smask_present quality
       convert_pngs png_threshold osize bits st =
     (let needs_resize = ((tw, th) \<noteq> (ow, oh)) in
      case pil_open E ibytes of
        Inl e \<Rightarrow> (Inl e, st)
      | Inr pil_image \<Rightarrow>
          let has_alpha = has_transparency pil_image smask_present;
              resize = (if needs_resize then Some (tw, th) else None);
              request = pil_save_plan ibytes image_ext (mode pil_image) has_alpha resize
                          quality convert_pngs png_threshold osize bits
          in (pil_encode E request, st\<lparr>trace := trace st @ [PilEncode request]\<rparr>))"

definition optimize_image_with_pil ::
  "env \<Rightarrow> nat \<Rightarrow> image_info \<Rightarrow> options \<Rightarrow> state \<Rightarrow> (exn + (bool \<times> int \<times> int)) \<times> state" where
  "optimize_image_with_pil E page info opts st =
     (case extract_image st (xref info) of
        Inl e \<Rightarrow> (Inl e, st)
      | Inr base \<Rightarrow>
          let ibytes = image_bytes base;
              osize = int (length ibytes);
              digest = sha1 E ibytes
          in
            (case cache st digest of
               Some cached \<Rightarrow> replay_cached E (xref info) cached st
             | None \<Rightarrow>
                 if skip_small_images opts \<and> osize \<le> small_image_threshold opts
                 then (Inr (False, osize, osize), record_unoptimized digest osize st)
                 else
                   let image_ext = lower (ext base);
                       ow = width base;
                       oh = height base;
                       bits = (case bpc base of None \<Rightarrow> 8 | Some v \<Rightarrow> v)
                   in
                     if bits \<le> 1 \<and> image_ext \<noteq> ''png''
                     then (Inr (False, osize, osize), record_unoptimized digest osize st)
                     else
                       (case compute_target_dimensions (float_round E) (get_image_bbox E)
                               page info ow oh (max_dpi opts) of
                          Inl e \<Rightarrow> (Inl e, st)
                        | Inr (tw, th) \<Rightarrow>
                            (case pil_stage E ibytes image_ext ow oh tw th (smask info \<noteq> 0)
                                    (image_quality opts) (convert_large_pngs_to_jpeg opts)
                                    (png_to_jpeg_threshold opts) osize bits st of
                               (Inl e, st') \<Rightarrow> (Inl e, st')
                             | (Inr optimized_bytes, st') \<Rightarrow>
                                 acceptance_gate E (xref info) digest osize optimized_bytes st'))))"

text \<open>The body of the \<^verbatim>\<open>try\<close> block of \<^verbatim>\<open>optimize_image\<close> (lines 277--311).\<close>

definition pyvips_attempt ::
  "env \<Rightarrow> image_info \<Rightarrow> options \<Rightarrow> bytes \<Rightarrow> bytes \<Rightarrow> string \<Rightarrow> int \<Rightarrow> int \<Rightarrow> int \<Rightarrow> int \<Rightarrow> int \<Rightarrow> int
     \<Rightarrow> state \<Rightarrow> (exn + (bool \<times> int \<times> int)) \<times> state" where
  "pyvips_attempt E info opts digest ibytes image_ext ow oh tw th osize bits st =
     (case (if smask info \<noteq> 0 \<or> image_ext = ''png''
            then (case pil_open E ibytes of
                    Inl e \<Rightarrow> Inl e
                  | Inr pil_image \<Rightarrow> Inr (has_transparency pil_image (smask info \<noteq> 0)))
            else Inr False) of
        Inl e \<Rightarrow> (Inl e, st)
      | Inr has_alpha \<Rightarrow>
          (case optimize_image_with_pyvips E ibytes image_ext ow oh tw th has_alpha
                  (image_quality opts) (convert_large_pngs_to_jpeg opts)
                  (png_to_jpeg_threshold opts) osize bits st of
             (Inl e, st') \<Rightarrow> (Inl e, st')
           | (Inr optimized_bytes, st') \<Rightarrow>
               acceptance_gate E (xref info) digest osize optimized_bytes st'))"

definition optimize_image ::
  "env \<Rightarrow> nat \<Rightarrow> image_info \<Rightarrow> options \<Rightarrow> state \<Rightarrow> (exn + (bool \<times> int \<times> int)) \<times> state" where
  "optimize_image E page info opts st =
     (case extract_image st (xref info) of
        Inl e \<Rightarrow> (Inl e, st)
      | Inr base \<Rightarrow>
          let ibytes = image_bytes base;
              osize = int (length ibytes);
              digest = sha1 E ibytes
          in
            (case cache st digest of
               Some cached \<Rightarrow> replay_cached E (xref info) cached st
             | None \<Rightarrow>
                 if skip_small_images opts \<and> osize \<le> small_image_threshold opts
                 then (Inr (False, osize, osize), record_unoptimized digest osize st)
                 else
                   let image_ext = lower (ext base);
                       ow = width base;
                       oh = height base;
                       bits = (case bpc base of None \<Rightarrow> 8 | Some v \<Rightarrow> v)
                   in
                     if bits \<le> 1 \<and> image_ext \<noteq> ''png''
                     then (Inr (False, osize, osize), record_unoptimized digest osize st)
                     else
                       (case compute_target_dimensions (float_round E) (get_image_bbox E)
                               page info ow oh (max_dpi opts) of
                          Inl e \<Rightarrow> (Inl e, st)
                        | Inr (tw, th) \<Rightarrow>
                            (case pyvips_attempt E info opts digest ibytes image_ext
                                    ow oh tw th osize bits st of
                               (Inr result, st') \<Rightarrow> (Inr result, st')
                             | (Inl e, st') \<Rightarrow> optimize_image_with_pil E page info opts st'))))"

section \<open>Enumeration and the orchestrating compressor\<close>

text \<open>
  A document: for every page the result of \<^verbatim>\<open>doc[page_index]\<close> followed by
  \<^verbatim>\<open>page.get_images(full=True)\<close>, which may raise, and the image objects by
  object id.
\<close>

record document =
  pages :: "(exn + image_info list) list"
  objects :: "int \<rightharpoonup> base_image"

fun unique_in_page ::
  "nat \<Rightarrow> image_info list \<Rightarrow> int set \<Rightarrow> (nat \<times> image_info) list \<times> int set" where
  "unique_in_page page [] seen_xrefs = ([], seen_xrefs)"
| "unique_in_page page (info # rest) seen_xrefs =
     (if xref info \<in> seen_xrefs then unique_in_page page rest seen_xrefs
      else
        (case unique_in_page page rest (insert (xref info) seen_xrefs) of
           (items, seen') \<Rightarrow> ((page, info) # items, seen')))"

text \<open>
  The generator yields lazily: what it yielded before a page raised has been consumed
  by the loop, so the result is the sequence yielded and the exception that ended it, if
  any.
\<close>

fun unique_in_pages ::
  "nat \<Rightarrow> (exn + image_info list) list \<Rightarrow> int set \<Rightarrow> (nat \<times> image_info) list \<times> exn option" where
  "unique_in_pages page_index [] seen_xrefs = ([], None)"
| "unique_in_pages page_index (Inl e # rest) seen_xrefs = ([], Some e)"
| "unique_in_pages page_index (Inr infos # rest) seen_xrefs =
     (case unique_in_page page_index infos seen_xrefs of
        (items, seen') \<Rightarrow>
          (case unique_in_pages (Suc page_index) rest seen' of
             (items', err) \<Rightarrow> (items @ items', err)))"

definition iter_unique_images :: "document \<Rightarrow> (nat \<times> image_info) list \<times> exn option" where
  "iter_unique_images doc = unique_in_pages 0 (pages doc) {}"

text \<open>
  The body of the \<^verbatim>\<open>for\<close> loop of \<^verbatim>\<open>_compress_document\<close>: the handler
  \<^verbatim>\<open>except Exception: continue\<close> encloses the call of \<^verbatim>\<open>optimize_image\<close> only.
\<close>

fun compress_loop ::
  "env \<Rightarrow> options \<Rightarrow> (nat \<times> image_info) list \<Rightarrow> int \<times> int \<times> int \<Rightarrow> state
     \<Rightarrow> (int \<times> int \<times> int) \<times> state" where
  "compress_loop E opts [] totals st = (totals, st)"
| "compress_loop E opts ((page, info) # rest) (images_replaced, total_original, total_optimized) st =
     (case optimize_image E page info opts st of
        (Inl e, st') \<Rightarrow>
          compress_loop E opts rest (images_replaced, total_original, total_optimized) st'
      | (Inr (is_optimized, osize, nsize), st') \<Rightarrow>
          if is_optimized
          then compress_loop E opts rest
                 (images_replaced + 1, total_original + osize, total_optimized + nsize) st'
          else compress_loop E opts rest (images_replaced, total_original, total_optimized) st')"

definition initial_state :: "document \<Rightarrow> state" where
  "initial_state doc = \<lparr>store = objects doc, cache = Map.empty, trace = []\<rparr>"

definition compress_document ::
  "env \<Rightarrow> document \<Rightarrow> options \<Rightarrow> (exn + (int \<times> int \<times> int)) \<times> state" where
  "compress_document E doc opts =
     (let quality = max 1 (min (image_quality opts) 100);
          effective_dpi = max_dpi opts;
          run_opts = opts\<lparr>image_quality := quality, max_dpi := effective_dpi\<rparr>
      in
        (case iter_unique_images doc of
           (items, err) \<Rightarrow>
             (case compress_loop E run_opts items (0, 0, 0) (initial_state doc) of
                (totals, st) \<Rightarrow>
                  (case err of
                     None \<Rightarrow> (Inr totals, st)
                   | Some e \<Rightarrow> (Inl e, st)))))"

section \<open>Observations on the log\<close>

text \<open>The raw bytes a backend was asked to encode, for an encode event.\<close>

fun encode_source :: "event \<Rightarrow> bytes option" where
  "encode_source (VipsEncode b resize save) = Some b"
| "encode_source (PilEncode request) = Some (pil_source request)"
| "encode_source (ReplaceImage x stream) = None"



text \<open>The encode events of a log whose raw bytes have the given digest.\<close>

definition encodes_of :: "env \<Rightarrow> bytes \<Rightarrow> event list \<Rightarrow> event list" where
  "encodes_of E digest evs =
     filter (\<lambda>ev. case encode_source ev of None \<Rightarrow> False | Some b \<Rightarrow> sha1 E b = digest) evs"

text \<open>The events logged between two states of one run.\<close>

definition events_since :: "state \<Rightarrow> state \<Rightarrow> event list" where
  "events_since st st' = drop (length (trace st)) (trace st')"

section \<open>Effects of processing one image\<close>

text \<open>
  The external calls that processing one image may make: a replacement at the image's
  own object id; an encode request of the primary backend for the image's raw bytes,
  with the save plan computed from the detector's answer; an encode request of the
  secondary backend, likewise. Encode requests are made only while the digest of the raw
  bytes is not a key of the cache.
\<close>

definition permitted_call ::
  "env \<Rightarrow> image_info \<Rightarrow> options \<Rightarrow> base_image \<Rightarrow> (bytes \<rightharpoonup> ImageOptimizationResult)
     \<Rightarrow> event \<Rightarrow> bool" where
  "permitted_call E info opts base ch ev =
     (let ib = image_bytes base;
          osize = int (length ib);
          iext = lower (ext base);
          bits = (case bpc base of None \<Rightarrow> 8 | Some v \<Rightarrow> v);
          sm = (smask info \<noteq> 0)
      in case ev of
           ReplaceImage y s \<Rightarrow> y = xref info
         | VipsEncode b rs sv \<Rightarrow>
             b = ib \<and> ch (sha1 E ib) = None
             \<and> (\<exists>alpha.
                   (if sm \<or> iext = ''png''
                    then (\<exists>im. pil_open E ib = Inr im \<and> alpha = has_transparency im sm)
                    else alpha = False)
                   \<and> sv = vips_save_plan iext alpha (image_quality opts)
                          (convert_large_pngs_to_jpeg opts) (png_to_jpeg_threshold opts) osize bits)
         | PilEncode req \<Rightarrow>
             ch (sha1 E ib) = None
             \<and> (\<exists>im rs. pil_open E ib = Inr im
                   \<and> req = pil_save_plan ib iext (mode im) (has_transparency im sm) rs
                           (image_quality opts) (convert_large_pngs_to_jpeg opts)
                           (png_to_jpeg_threshold opts) osize bits))"

text \<open>
  The possible outcomes of one call of \<^verbatim>\<open>optimize_image\<close>, as a relation between
  the state before, the result and the state after: the object id is not an image; an
  exception after some permitted calls, with the document and the cache as before; a
  cache hit replayed, with or without replacement; a fresh unoptimised entry; a fresh
  accepted entry with the replacement.
\<close>

inductive step_outcome ::
  "env \<Rightarrow> image_info \<Rightarrow> options \<Rightarrow> state \<Rightarrow> exn + (bool \<times> int \<times> int) \<Rightarrow> state \<Rightarrow> bool"
  for E :: env and info :: image_info and opts :: options and st :: state where
  no_image:
    "store st (xref info) = None \<Longrightarrow> step_outcome E info opts st (Inl e) st"
| failed:
    "\<lbrakk>store st (xref info) = Some base;
      \<forall>ev\<in>set evs. permitted_call E info opts base (cache st) ev\<rbrakk>
     \<Longrightarrow> step_outcome E info opts st (Inl e) (st\<lparr>trace := trace st @ evs\<rparr>)"
| hit_noop:
    "\<lbrakk>store st (xref info) = Some base;
      cache st (sha1 E (image_bytes base)) = Some c;
      \<not> (optimized c \<and> data c \<noteq> None)\<rbrakk>
     \<Longrightarrow> step_outcome E info opts st (Inr (False, original_size c, original_size c)) st"
| hit_replayed:
    "\<lbrakk>store st (xref info) = Some base;
      cache st (sha1 E (image_bytes base)) = Some c;
      optimized c; data c = Some s;
      replace_image_raises E (xref info) s = None\<rbrakk>
     \<Longrightarrow> step_outcome E info opts st (Inr (True, original_size c, optimized_size c))
           (st\<lparr>trace := trace st @ [ReplaceImage (xref info) s],
               store := (store st)(xref info \<mapsto> base\<lparr>image_bytes := s\<rparr>)\<rparr>)"
| recorded:
    "\<lbrakk>store st (xref info) = Some base;
      cache st (sha1 E (image_bytes base)) = None;
      \<forall>ev\<in>set evs. permitted_call E info opts base (cache st) ev\<rbrakk>
     \<Longrightarrow> step_outcome E info opts st
           (Inr (False, int (length (image_bytes base)), int (length (image_bytes base))))
           (st\<lparr>trace := trace st @ evs,
               cache := (cache st)(sha1 E (image_bytes base) \<mapsto>
                  \<lparr>optimized = False, data = None,
                   original_size = int (length (image_bytes base)),
                   optimized_size = int (length (image_bytes base))\<rparr>)\<rparr>)"
| accepted:
    "\<lbrakk>store st (xref info) = Some base;
      cache st (sha1 E (image_bytes base)) = None;
      \<not> gate_bound (float_round E) (int (length (image_bytes base)))
          \<le> of_int (int (length ob));
      replace_image_raises E (xref info) ob = None;
      \<forall>ev\<in>set evs. permitted_call E info opts base (cache st) ev\<rbrakk>
     \<Longrightarrow> step_outcome E info opts st
           (Inr (True, int (length (image_bytes base)), int (length ob)))
           (st\<lparr>trace := trace st @ evs @ [ReplaceImage (xref info) ob],
               store := (store st)(xref info \<mapsto> base\<lparr>image_bytes := ob\<rparr>),
               cache := (cache st)(sha1 E (image_bytes base) \<mapsto>
                  \<lparr>optimized = True, data = Some ob,
                   original_size = int (length (image_bytes base)),
                   optimized_size = int (length ob)\<rparr>)\<rparr>)"

section \<open>Sample environment and documents\<close>

text \<open>
  A concrete environment for the examples: float operations are exact, the digest is
  the identity (a digest without collisions), every image is placed in a box of 100pt by
  100pt and decodes to an opaque RGB image, both backends return the first half of the
  raw bytes, and the host accepts every replacement.
\<close>

definition sample_image :: base_image where
  "sample_image =
     \<lparr>image_bytes = ''aaaaaaaaaa'', ext = ''JPEG'', width = 10, height = 10, bpc = Some 8\<rparr>"

definition sample_env :: env where
  "sample_env =
     \<lparr>float_round = exact_arithmetic,
      sha1 = (\<lambda>b. b),
      get_image_bbox = bbox_returns 100 100,
      pil_open = (\<lambda>b. Inr \<lparr>mode = ''RGB'', alpha_lowest = PyOther, info_transparency = None\<rparr>),
      pyvips_available = True,
      vips_new_from_buffer = (\<lambda>b. None),
      vips_encode = (\<lambda>b resize save. Inr (take (length b div 2) b)),
      pil_encode = (\<lambda>request. Inr (take (length (pil_source request) div 2) (pil_source request))),
      replace_image_raises = (\<lambda>x stream. None)\<rparr>"

definition sample_options :: options where
  "sample_options =
     \<lparr>image_quality = 90, max_dpi = Some 250, skip_small_images = False,
      small_image_threshold = 500000, convert_large_pngs_to_jpeg = True,
      png_to_jpeg_threshold = 200000\<rparr>"

definition twin_document :: document where
  "twin_document =
     \<lparr>pages = [Inr [\<lparr>xref = 1, smask = 0\<rparr>], Inr [\<lparr>xref = 1, smask = 0\<rparr>, \<lparr>xref = 2, smask = 0\<rparr>]],
      objects = [1 \<mapsto> sample_image, 2 \<mapsto> sample_image]\<rparr>"

text \<open>
  The defaults of \<^verbatim>\<open>compress_pdf\<close>; \<open>sample_options\<close> differs in not skipping
  small images.
\<close>

definition default_options :: options where
  "default_options =
     \<lparr>image_quality = 90, max_dpi = Some 250, skip_small_images = True,
      small_image_threshold = 500000, convert_large_pngs_to_jpeg = True,
      png_to_jpeg_threshold = 200000\<rparr>"

text \<open>Both backends raise on every request.\<close>

definition failing_backends_env :: env where
  "failing_backends_env =
     sample_env\<lparr>vips_encode := (\<lambda>b resize save. Inl RuntimeError),
                pil_encode := (\<lambda>request. Inl RuntimeError)\<rparr>"

text \<open>The host raises on every replacement.\<close>

definition refusing_host_env :: env where
  "refusing_host_env = sample_env\<lparr>replace_image_raises := (\<lambda>x stream. Some RuntimeError)\<rparr>"

text \<open>Both backends return the raw bytes as they are, so nothing is gained.\<close>

definition no_gain_env :: env where
  "no_gain_env =
     sample_env\<lparr>vips_encode := (\<lambda>b resize save. Inr b),
                pil_encode := (\<lambda>request. Inr (pil_source request))\<rparr>"

text \<open>The primary backend is not installed.\<close>

definition pil_only_env :: env where
  "pil_only_env = sample_env\<lparr>pyvips_available := False\<rparr>"

text \<open>A document whose second page cannot be listed.\<close>

definition broken_page_document :: document where
  "broken_page_document =
     \<lparr>pages = [Inr [\<lparr>xref = 1, smask = 0\<rparr>], Inl RuntimeError],
      objects = [1 \<mapsto> sample_image]\<rparr>"

text \<open>
  Two image objects with the same raw bytes, the second declared with one bit per
  component.
\<close>

definition mixed_depth_document :: document where
  "mixed_depth_document =
     \<lparr>pages = [Inr [\<lparr>xref = 1, smask = 0\<rparr>, \<lparr>xref = 2, smask = 0\<rparr>]],
      objects = [1 \<mapsto> sample_image, 2 \<mapsto> sample_image\<lparr>bpc := Some 1\<rparr>]\<rparr>"

text \<open>An opaque PNG of \<open>n\<close> bytes, alone in a document.\<close>

definition png_image :: "nat \<Rightarrow> base_image" where
  "png_image n =
     \<lparr>image_bytes = replicate n (CHR ''p''), ext = ''png'', width = 10, height = 10, bpc = Some 8\<rparr>"

definition png_document :: "nat \<Rightarrow> document" where
  "png_document n =
     \<lparr>pages = [Inr [\<lparr>xref = 1, smask = 0\<rparr>]], objects = [1 \<mapsto> png_image n]\<rparr>"

text \<open>The state of a run over \<open>twin_document\<close> after its first image was accepted.\<close>

definition after_first_twin :: state where
  "after_first_twin =
     \<lparr>store = [2 \<mapsto> sample_image, 1 \<mapsto> sample_image\<lparr>image_bytes := ''aaaaa''\<rparr>],
      cache = [''aaaaaaaaaa'' \<mapsto>
         \<lparr>optimized = True, data = Some ''aaaaa'', original_size = 10, optimized_size = 5\<rparr>],
      trace = [VipsEncode ''aaaaaaaaaa'' None (VipsJpeg 90), ReplaceImage 1 ''aaaaa'']\<rparr>"

section \<open>Properties of the dimension planner\<close>

lemma float_rounding_mono: "float_rounding rnd \<Longrightarrow> x \<le> y \<Longrightarrow> rnd x \<le> rnd y"
  by (simp add: float_rounding_def)

lemma float_rounding_int:
  "float_rounding rnd \<Longrightarrow> \<bar>n\<bar> \<le> 2 ^ 53 \<Longrightarrow> rnd (of_int n) = of_int n"
  by (simp add: float_rounding_def)

lemma float_rounding_zero: "float_rounding rnd \<Longrightarrow> rnd 0 = 0"
  using float_rounding_int [of rnd 0] by simp

lemma float_rounding_one: "float_rounding rnd \<Longrightarrow> rnd 1 = 1"
  using float_rounding_int [of rnd 1] by simp

lemma float_rounding_exact: "float_rounding exact_arithmetic"
  by (simp add: float_rounding_def exact_arithmetic_def)

lemma float_range_exact: "float_range exact_arithmetic"
  by (simp add: float_range_def exact_arithmetic_def)

lemma float_rounding_nonneg: "float_rounding rnd \<Longrightarrow> 0 \<le> x \<Longrightarrow> 0 \<le> rnd x"
  using float_rounding_mono [of rnd 0 x] by (simp add: float_rounding_zero)

lemma float_rounding_pow53:
  assumes "float_rounding rnd" and "x \<le> 2 ^ 53"
  shows "rnd x \<le> 2 ^ 53"
proof -
  have "rnd x \<le> rnd (of_int (2 ^ 53))"
    using assms by (simp add: float_rounding_mono)
  also have "rnd (of_int (2 ^ 53)) = of_int (2 ^ 53)"
    using assms(1) by (rule float_rounding_int) simp
  finally show ?thesis by simp
qed

lemma within_float_range:
  fixes x :: rat
  assumes "\<bar>x\<bar> \<le> 2 ^ 106"
  shows "\<not> float_overflow x"
proof -
  have "(2::rat) ^ 106 < 2 ^ 1024 - 2 ^ 970" by simp
  with assms show ?thesis by (simp add: float_overflow_def)
qed

lemma py_int_nonneg: "0 \<le> x \<Longrightarrow> py_int x = \<lfloor>x\<rfloor>"
  by (simp add: py_int_def)

lemma py_int_less_255: "py_int x < 255 \<longleftrightarrow> x < 255"
proof (cases "0 \<le> x")
  case True
  then show ?thesis by (simp add: py_int_def floor_less_iff)
next
  case False
  then have neg: "x < 0" by simp
  then have "\<lceil>x\<rceil> \<le> 0" by (simp add: ceiling_le_iff)
  with neg show ?thesis by (simp add: py_int_def)
qed

lemma inches_bounds:
  assumes "float_rounding rnd" and "w \<le> 2 ^ 53"
  shows "0 \<le> max (rnd (w / 72)) (rnd (1 / 1000))"
    and "max (rnd (w / 72)) (rnd (1 / 1000)) \<le> 2 ^ 53"
proof -
  have "0 \<le> rnd (1 / 1000)"
    using assms(1) by (rule float_rounding_nonneg) simp
  then show "0 \<le> max (rnd (w / 72)) (rnd (1 / 1000))"
    by (simp add: le_max_iff_disj)
  have "w / 72 \<le> 2 ^ 53"
  proof (cases "0 \<le> w")
    case True
    then have "w / 72 \<le> w" by simp
    with assms(2) show ?thesis by simp
  next
    case False
    then have "w / 72 \<le> 0" by simp
    then show ?thesis by (rule order_trans) simp
  qed
  then have a: "rnd (w / 72) \<le> 2 ^ 53"
    using assms(1) float_rounding_pow53 by blast
  have b: "rnd (1 / 1000) \<le> 2 ^ 53"
    using assms(1) by (rule float_rounding_pow53) simp
  from a b show "max (rnd (w / 72)) (rnd (1 / 1000)) \<le> 2 ^ 53" by (rule max.boundedI)
qed

lemma product_within_range:
  fixes n :: int and x :: rat
  assumes "\<bar>n\<bar> \<le> 2 ^ 53" and "\<bar>x\<bar> \<le> 2 ^ 53"
  shows "\<bar>of_int n * x\<bar> \<le> 2 ^ 106"
proof -
  have "\<bar>(of_int n :: rat)\<bar> \<le> 2 ^ 53"
  proof -
    have "(of_int \<bar>n\<bar> :: rat) \<le> of_int (2 ^ 53)"
      using assms(1) by (simp only: of_int_le_iff)
    then show ?thesis by simp
  qed
  then have "\<bar>(of_int n :: rat)\<bar> * \<bar>x\<bar> \<le> 2 ^ 53 * 2 ^ 53"
    using assms(2) by (intro mult_mono) simp_all
  then show ?thesis by (simp add: abs_mult)
qed

lemma int_mul_float_eq:
  assumes "float_rounding rnd" and "\<bar>n\<bar> \<le> 2 ^ 53" and "\<bar>x\<bar> \<le> 2 ^ 53"
  shows "int_mul_float rnd n x = Inr (rnd (of_int n * x))"
proof -
  have conv: "rnd (of_int n) = of_int n"
    using assms(1,2) by (rule float_rounding_int)
  have "\<bar>of_int n * (1::rat)\<bar> \<le> 2 ^ 106"
    using assms(2) by (intro product_within_range) simp_all
  then have a: "\<not> float_overflow (of_int n)"
    using within_float_range [of "of_int n"] by simp
  have b: "\<not> float_overflow (of_int n * x)"
    using assms(2,3) by (intro within_float_range product_within_range)
  from conv a b show ?thesis by (simp add: int_mul_float_def)
qed

lemma int_true_div_eq:
  assumes "b \<noteq> 0" and "\<not> float_overflow (of_int a)"
  shows "int_true_div rnd a b = Inr (rnd (of_int a / of_int b))"
proof -
  have "1 \<le> \<bar>b\<bar>" using assms(1) by simp
  then have "(1::rat) \<le> \<bar>of_int b\<bar>"
    by (metis of_int_1_le_iff of_int_abs)
  then have "\<bar>(of_int a :: rat)\<bar> / \<bar>of_int b\<bar> \<le> \<bar>of_int a\<bar> / 1"
    by (intro frac_le) simp_all
  then have "\<bar>(of_int a :: rat) / of_int b\<bar> \<le> \<bar>of_int a\<bar>"
    by simp
  with assms(2) have "\<not> float_overflow (of_int a / of_int b)"
    by (simp add: float_overflow_def)
  with assms(1) show ?thesis by (simp add: int_true_div_def)
qed

lemma axis_max_eq:
  assumes "float_rounding rnd" and "0 < dpi"
  shows "max (py_int (rnd (of_int dpi * max (rnd (w / 72)) (rnd (1 / 1000))))) 1
           = spec_axis_max rnd dpi w"
proof -
  have "0 \<le> rnd (1 / 1000)"
    using assms(1) by (rule float_rounding_nonneg) simp
  then have "0 \<le> max (rnd (w / 72)) (rnd (1 / 1000))"
    by (simp add: le_max_iff_disj)
  with assms(2) have "0 \<le> (of_int dpi :: rat) * max (rnd (w / 72)) (rnd (1 / 1000))"
    by simp
  then have "0 \<le> rnd (of_int dpi * max (rnd (w / 72)) (rnd (1 / 1000)))"
    using assms(1) float_rounding_nonneg by blast
  then show ?thesis by (simp add: py_int_nonneg spec_axis_max_def max.commute)
qed

lemma floor_within_range:
  assumes "\<not> float_overflow y" and "0 \<le> y"
  shows "\<not> float_overflow (of_int (max 1 \<lfloor>y\<rfloor>))"
proof -
  define T :: rat where "T = 2 ^ 1024 - 2 ^ 970"
  define z :: rat where "z = of_int (max 1 \<lfloor>y\<rfloor>)"
  have overflow: "float_overflow x \<longleftrightarrow> T \<le> \<bar>x\<bar>" for x
    by (simp add: float_overflow_def T_def)
  have one: "1 < T" by (simp add: T_def)
  from assms have "y < T" by (simp add: overflow)
  moreover have "of_int \<lfloor>y\<rfloor> \<le> y" by simp
  ultimately have "of_int \<lfloor>y\<rfloor> < T" by (rule le_less_trans [rotated])
  with one have "z < T" by (simp add: z_def max_def)
  moreover have "0 \<le> z" by (simp add: z_def)
  ultimately have "\<not> T \<le> \<bar>z\<bar>" by simp
  then show ?thesis unfolding z_def overflow .
qed

lemma axis_max_within_range:
  assumes "float_rounding rnd" and "float_range rnd"
    and "0 < d" and "d \<le> 2 ^ 53" and "w \<le> 2 ^ 53"
  shows "\<not> float_overflow (of_int (spec_axis_max rnd d w))"
proof -
  define x where "x = max (rnd (w / 72)) (rnd (1 / 1000))"
  have x: "0 \<le> x" "x \<le> 2 ^ 53"
    unfolding x_def using assms(1,5) by (rule inches_bounds)+
  have d: "\<bar>d\<bar> \<le> 2 ^ 53" using assms(3,4) by simp
  have "\<bar>of_int d * x\<bar> \<le> 2 ^ 106"
    using d x by (intro product_within_range) simp_all
  then have "\<not> float_overflow (of_int d * x)" by (rule within_float_range)
  then have r: "\<not> float_overflow (rnd (of_int d * x))"
    using assms(2) by (simp add: float_range_def)
  have "0 \<le> of_int d * x" using assms(3) x by simp
  then have "0 \<le> rnd (of_int d * x)"
    using assms(1) float_rounding_nonneg by blast
  with r have "\<not> float_overflow (of_int (max 1 \<lfloor>rnd (of_int d * x)\<rfloor>))"
    by (rule floor_within_range)
  then show ?thesis unfolding spec_axis_max_def x_def .
qed

lemma scaled_le:
  fixes a :: int and s :: rat
  assumes "float_rounding rnd" and "0 < a" and "a \<le> 2 ^ 53" and "s \<le> 1"
  shows "max 1 \<lfloor>rnd (of_int a * s)\<rfloor> \<le> a"
proof -
  have "of_int a * s \<le> (of_int a :: rat)"
    using assms by (simp add: mult_left_le)
  then have "rnd (of_int a * s) \<le> rnd (of_int a)"
    using assms(1) float_rounding_mono by blast
  moreover have "rnd (of_int a) = of_int a"
    using assms by (simp add: float_rounding_int)
  ultimately have "\<lfloor>rnd (of_int a * s)\<rfloor> \<le> a" by (simp add: floor_le_iff)
  with assms show ?thesis by simp
qed

lemma scale_le_one:
  fixes ow oh mw mh :: int
  assumes "float_rounding rnd" and "0 < ow" and "0 < oh" and "\<not> (ow \<le> mw \<and> oh \<le> mh)"
  shows "spec_scale rnd mw mh ow oh \<le> 1"
proof -
  from assms consider "mw < ow" | "mh < oh" by fastforce
  then show ?thesis
  proof cases
    case 1
    with assms(2) have "(of_int mw / of_int ow :: rat) \<le> 1" by simp
    then have "rnd (of_int mw / of_int ow) \<le> rnd 1"
      using assms(1) float_rounding_mono by blast
    with assms(1) show ?thesis
      by (simp add: spec_scale_def float_rounding_one min_le_iff_disj)
  next
    case 2
    with assms(3) have "(of_int mh / of_int oh :: rat) \<le> 1" by simp
    then have "rnd (of_int mh / of_int oh) \<le> rnd 1"
      using assms(1) float_rounding_mono by blast
    with assms(1) show ?thesis
      by (simp add: spec_scale_def float_rounding_one min_le_iff_disj)
  qed
qed

lemma scale_nonneg:
  fixes ow oh mw mh :: int
  assumes "float_rounding rnd" and "0 < ow" and "0 < oh" and "0 < mw" and "0 < mh"
  shows "0 \<le> spec_scale rnd mw mh ow oh"
proof -
  have "0 \<le> rnd (of_int mw / of_int ow)" "0 \<le> rnd (of_int mh / of_int oh)"
    using assms by (simp_all add: float_rounding_nonneg)
  then show ?thesis by (simp add: spec_scale_def)
qed

lemma spec_axis_max_pos: "0 < spec_axis_max rnd d w"
  by (simp add: spec_axis_max_def)

lemma compute_target_dimensions_bbox:
  assumes rnd: "float_rounding rnd" "float_range rnd"
    and d: "0 < d" "d \<le> 2 ^ 53"
    and ow: "0 < ow" "ow \<le> 2 ^ 53" and oh: "0 < oh" "oh \<le> 2 ^ 53"
    and box: "get_bbox page info = Inr c"
      "rect_width (bbox_rect c) \<le> 2 ^ 53" "rect_height (bbox_rect c) \<le> 2 ^ 53"
  shows "compute_target_dimensions rnd get_bbox page info ow oh (Some d) =
     (let mw = spec_axis_max rnd d (rect_width (bbox_rect c));
          mh = spec_axis_max rnd d (rect_height (bbox_rect c))
      in if ow \<le> mw \<and> oh \<le> mh then Inr (ow, oh)
         else Inr (max 1 \<lfloor>rnd (of_int ow * spec_scale rnd mw mh ow oh)\<rfloor>,
                   max 1 \<lfloor>rnd (of_int oh * spec_scale rnd mw mh ow oh)\<rfloor>))"
proof -
  define wi where "wi = max (rnd (rect_width (bbox_rect c) / 72)) (rnd (1 / 1000))"
  define hi where "hi = max (rnd (rect_height (bbox_rect c) / 72)) (rnd (1 / 1000))"
  define mw where "mw = spec_axis_max rnd d (rect_width (bbox_rect c))"
  define mh where "mh = spec_axis_max rnd d (rect_height (bbox_rect c))"
  define s where "s = spec_scale rnd mw mh ow oh"
  have dabs: "\<bar>d\<bar> \<le> 2 ^ 53" using d by simp
  have "0 \<le> wi" "wi \<le> 2 ^ 53"
    unfolding wi_def using rnd(1) box(2) by (rule inches_bounds)+
  then have wi: "\<bar>wi\<bar> \<le> 2 ^ 53" by simp
  have "0 \<le> hi" "hi \<le> 2 ^ 53"
    unfolding hi_def using rnd(1) box(3) by (rule inches_bounds)+
  then have hi: "\<bar>hi\<bar> \<le> 2 ^ 53" by simp
  have px: "int_mul_float rnd d wi = Inr (rnd (of_int d * wi))"
    "int_mul_float rnd d hi = Inr (rnd (of_int d * hi))"
    using rnd(1) dabs wi hi by (simp_all add: int_mul_float_eq)
  have mx: "max (py_int (rnd (of_int d * wi))) 1 = mw"
    "max (py_int (rnd (of_int d * hi))) 1 = mh"
    using rnd(1) d(1) by (simp_all add: wi_def hi_def mw_def mh_def axis_max_eq)
  have "\<not> float_overflow (of_int mw)" "\<not> float_overflow (of_int mh)"
    using rnd d box(2,3) by (simp_all add: mw_def mh_def axis_max_within_range)
  then have dv: "int_true_div rnd mw ow = Inr (rnd (of_int mw / of_int ow))"
    "int_true_div rnd mh oh = Inr (rnd (of_int mh / of_int oh))"
    using ow(1) oh(1) by (simp_all add: int_true_div_eq)
  have sc: "min (rnd (of_int mw / of_int ow)) (rnd (of_int mh / of_int oh)) = s"
    by (simp add: s_def spec_scale_def)
  have tg: "\<not> (ow \<le> mw \<and> oh \<le> mh) \<Longrightarrow>
      int_mul_float rnd ow s = Inr (rnd (of_int ow * s))
      \<and> int_mul_float rnd oh s = Inr (rnd (of_int oh * s))"
  proof -
    assume over: "\<not> (ow \<le> mw \<and> oh \<le> mh)"
    have "s \<le> 1"
      using rnd(1) ow(1) oh(1) over unfolding s_def by (rule scale_le_one)
    moreover have "0 \<le> s"
      using rnd(1) ow(1) oh(1) unfolding s_def mw_def mh_def
      by (intro scale_nonneg spec_axis_max_pos)
    moreover have "(1::rat) \<le> 2 ^ 53" by simp
    ultimately have "\<bar>s\<bar> \<le> 2 ^ 53" by simp
    moreover have "\<bar>ow\<bar> \<le> 2 ^ 53" "\<bar>oh\<bar> \<le> 2 ^ 53" using ow oh by simp_all
    ultimately show ?thesis using rnd(1) by (simp add: int_mul_float_eq)
  qed
  have "compute_target_dimensions rnd get_bbox page info ow oh (Some d) =
      (if ow \<le> mw \<and> oh \<le> mh then Inr (ow, oh)
       else Inr (max 1 \<lfloor>rnd (of_int ow * s)\<rfloor>, max 1 \<lfloor>rnd (of_int oh * s)\<rfloor>))"
    using d(1) box(1) px mx dv sc tg
    by (simp add: compute_target_dimensions_def bbox_rect_def [symmetric]
        wi_def [symmetric] hi_def [symmetric] Let_def)
  then show ?thesis by (simp add: mw_def mh_def s_def Let_def)
qed

text \<open>
  Claim C3. For positive original dimensions, and for a bounding box and a DPI ceiling
  within the range of the float arithmetic, the planner returns a pair \<open>(w, h)\<close> with
  \<open>1 \<le> w \<le> original width\<close> and \<open>1 \<le> h \<le> original height\<close>. When an original
  dimension exceeds its per-axis pixel maximum (the ceiling times the physical size in
  inches, floored, at least 1), both axes are the original dimension times the single
  factor \<open>min (max_w / original_w) (max_h / original_h)\<close>, floored, at least 1. The
  statement holds for every rounding of the float operations that is monotone, exact on
  the integers up to \<open>2 ^ 53\<close> and keeps the range, for dimensions, a ceiling and
  extents of the box up to \<open>2 ^ 53\<close>.
\<close>

theorem compute_target_dimensions_no_upscaling:
  assumes "float_rounding rnd" and "float_range rnd"
    and "0 < ow" and "ow \<le> 2 ^ 53" and "0 < oh" and "oh \<le> 2 ^ 53"
    and "\<forall>d. dpi_ceiling = Some d \<longrightarrow> d \<le> 2 ^ 53"
    and "get_bbox page info = Inr c"
    and "rect_width (bbox_rect c) \<le> 2 ^ 53" and "rect_height (bbox_rect c) \<le> 2 ^ 53"
  shows "\<exists>w h. compute_target_dimensions rnd get_bbox page info ow oh dpi_ceiling = Inr (w, h)
           \<and> 1 \<le> w \<and> w \<le> ow \<and> 1 \<le> h \<and> h \<le> oh
           \<and> (\<forall>d. dpi_ceiling = Some d \<and> 0 < d
                 \<and> (spec_axis_max rnd d (rect_width (bbox_rect c)) < ow
                      \<or> spec_axis_max rnd d (rect_height (bbox_rect c)) < oh)
               \<longrightarrow> w = max 1 \<lfloor>rnd (of_int ow
                              * spec_scale rnd (spec_axis_max rnd d (rect_width (bbox_rect c)))
                                  (spec_axis_max rnd d (rect_height (bbox_rect c))) ow oh)\<rfloor>
                 \<and> h = max 1 \<lfloor>rnd (of_int oh
                              * spec_scale rnd (spec_axis_max rnd d (rect_width (bbox_rect c)))
                                  (spec_axis_max rnd d (rect_height (bbox_rect c))) ow oh)\<rfloor>)"
proof (cases dpi_ceiling)
  case None
  with assms show ?thesis by (simp add: compute_target_dimensions_def)
next
  case (Some d)
  show ?thesis
  proof (cases "0 < d")
    case False
    with Some assms show ?thesis by (simp add: compute_target_dimensions_def)
  next
    case True
    define mw where "mw = spec_axis_max rnd d (rect_width (bbox_rect c))"
    define mh where "mh = spec_axis_max rnd d (rect_height (bbox_rect c))"
    from Some assms(7) have dle: "d \<le> 2 ^ 53" by simp
    note eq = compute_target_dimensions_bbox [where get_bbox = get_bbox and page = page
        and info = info and c = c, OF assms(1,2) True dle assms(3,4,5,6,8,9,10)]
    show ?thesis
    proof (cases "ow \<le> mw \<and> oh \<le> mh")
      case fits: True
      with True Some assms show ?thesis
        by (simp add: eq mw_def mh_def Let_def)
    next
      case over: False
      then have s: "spec_scale rnd mw mh ow oh \<le> 1"
        using assms scale_le_one by blast
      have "max 1 \<lfloor>rnd (of_int ow * spec_scale rnd mw mh ow oh)\<rfloor> \<le> ow"
        and "max 1 \<lfloor>rnd (of_int oh * spec_scale rnd mw mh ow oh)\<rfloor> \<le> oh"
        using s assms scaled_le by blast+
      with over True Some assms show ?thesis
        by (simp add: eq mw_def mh_def Let_def)
    qed
  qed
qed

text \<open>
  Scenario A of the specification: 800 by 600 pixels in a box of 100pt by 100pt at 72
  DPI gives 100 by 75.
\<close>

theorem compute_target_dimensions_no_upscaling_witness:
  "float_rounding exact_arithmetic \<and> float_range exact_arithmetic
   \<and> (0::int) < 800 \<and> (800::int) \<le> 2 ^ 53 \<and> (0::int) < 600 \<and> (600::int) \<le> 2 ^ 53
   \<and> (72::int) \<le> 2 ^ 53
   \<and> bbox_returns 100 100 0 \<lparr>xref = 1, smask = 0\<rparr>
       = Inr (BareRect \<lparr>rect_width = 100, rect_height = 100\<rparr>)
   \<and> rect_width (bbox_rect (BareRect \<lparr>rect_width = 100, rect_height = 100\<rparr>)) \<le> 2 ^ 53
   \<and> rect_height (bbox_rect (BareRect \<lparr>rect_width = 100, rect_height = 100\<rparr>)) \<le> 2 ^ 53
   \<and> spec_axis_max exact_arithmetic 72 100 = 100
   \<and> compute_target_dimensions exact_arithmetic (bbox_returns 100 100) 0
        \<lparr>xref = 1, smask = 0\<rparr> 800 600 (Some 72) = Inr (100, 75)
   \<and> (\<exists>w h. compute_target_dimensions exact_arithmetic (bbox_returns 100 100) 0
                \<lparr>xref = 1, smask = 0\<rparr> 800 600 (Some 72) = Inr (w, h)
            \<and> 1 \<le> w \<and> w \<le> 800 \<and> 1 \<le> h \<and> h \<le> 600)"
proof -
  have a: "spec_axis_max exact_arithmetic 72 100 = 100" by code_simp
  have b: "compute_target_dimensions exact_arithmetic (bbox_returns 100 100) 0
             \<lparr>xref = 1, smask = 0\<rparr> 800 600 (Some 72) = Inr (100, 75)"
    by (simp add: compute_target_dimensions_def int_mul_float_def int_true_div_def
        float_overflow_def bbox_returns_def exact_arithmetic_def py_int_def)
  have h1: "(0::int) < 800" and h2: "(800::int) \<le> 2 ^ 53"
    and h3: "(0::int) < 600" and h4: "(600::int) \<le> 2 ^ 53"
    by simp_all
  have h5: "\<forall>d::int. Some (72::int) = Some d \<longrightarrow> d \<le> 2 ^ 53" by simp
  have h6: "bbox_returns 100 100 0 \<lparr>xref = 1, smask = 0\<rparr>
              = Inr (BareRect \<lparr>rect_width = 100, rect_height = 100\<rparr>)"
    by (simp add: bbox_returns_def)
  have h7: "rect_width (bbox_rect (BareRect \<lparr>rect_width = 100, rect_height = 100\<rparr>)) \<le> 2 ^ 53"
    and h8: "rect_height (bbox_rect (BareRect \<lparr>rect_width = 100, rect_height = 100\<rparr>)) \<le> 2 ^ 53"
    by (simp_all add: bbox_rect_def)
  note compute_target_dimensions_no_upscaling [where dpi_ceiling = "Some 72"
      and get_bbox = "bbox_returns 100 100" and page = 0 and info = "\<lparr>xref = 1, smask = 0\<rparr>",
      OF float_rounding_exact float_range_exact h1 h2 h3 h4 h5 h6 h7 h8]
    a b h1 h2 h3 h4 h6 h7 h8 float_rounding_exact float_range_exact
  moreover have "(72::int) \<le> 2 ^ 53" by simp
  ultimately show ?thesis by blast
qed

text \<open>
  Claim C7 as stated fails: an exception of the bounding-box query that is neither a
  \<open>ValueError\<close> nor an \<open>AttributeError\<close> leaves the planner.
\<close>

theorem bbox_runtime_error_is_raised:
  "compute_target_dimensions exact_arithmetic (bbox_raises RuntimeError) 0
     \<lparr>xref = 1, smask = 0\<rparr> 1000 800 (Some 150) = Inl RuntimeError"
  by (simp add: compute_target_dimensions_def bbox_raises_def)

text \<open>
  Claim C7, amended. When the bounding-box query raises \<open>ValueError\<close> or
  \<open>AttributeError\<close>, the planner returns the original width and height, for every
  DPI ceiling, and raises nothing. When the query raises any other exception, the
  planner raises that exception, for every positive DPI ceiling; without a positive
  ceiling the query is not made.
\<close>

theorem bbox_failure_fails_open:
  assumes "get_bbox page info = Inl e"
  shows "(e = ValueError \<or> e = AttributeError \<longrightarrow>
            compute_target_dimensions rnd get_bbox page info ow oh dpi_ceiling = Inr (ow, oh))
       \<and> (e \<noteq> ValueError \<and> e \<noteq> AttributeError \<longrightarrow>
            (\<forall>d. 0 < d \<longrightarrow>
               compute_target_dimensions rnd get_bbox page info ow oh (Some d) = Inl e)
            \<and> (\<forall>d. d \<le> 0 \<longrightarrow>
               compute_target_dimensions rnd get_bbox page info ow oh (Some d) = Inr (ow, oh))
            \<and> compute_target_dimensions rnd get_bbox page info ow oh None = Inr (ow, oh))"
  using assms by (auto simp: compute_target_dimensions_def split: option.splits)

theorem bbox_failure_fails_open_witness:
  "bbox_raises ValueError 0 \<lparr>xref = 1, smask = 0\<rparr> = Inl ValueError
   \<and> bbox_raises AttributeError 0 \<lparr>xref = 1, smask = 0\<rparr> = Inl AttributeError
   \<and> bbox_raises OtherException 0 \<lparr>xref = 1, smask = 0\<rparr> = Inl OtherException
   \<and> compute_target_dimensions exact_arithmetic (bbox_raises ValueError) 0
       \<lparr>xref = 1, smask = 0\<rparr> 1000 800 (Some 150) = Inr (1000, 800)
   \<and> compute_target_dimensions exact_arithmetic (bbox_raises AttributeError) 0
       \<lparr>xref = 1, smask = 0\<rparr> 1000 800 (Some 150) = Inr (1000, 800)
   \<and> compute_target_dimensions exact_arithmetic (bbox_raises OtherException) 0
       \<lparr>xref = 1, smask = 0\<rparr> 1000 800 (Some 150) = Inl OtherException"
  using bbox_failure_fails_open [of "bbox_raises ValueError" 0 "\<lparr>xref = 1, smask = 0\<rparr>"
      ValueError exact_arithmetic 1000 800 "Some 150"]
    bbox_failure_fails_open [of "bbox_raises AttributeError" 0 "\<lparr>xref = 1, smask = 0\<rparr>"
      AttributeError exact_arithmetic 1000 800 "Some 150"]
    bbox_failure_fails_open [of "bbox_raises OtherException" 0 "\<lparr>xref = 1, smask = 0\<rparr>"
      OtherException exact_arithmetic 1000 800 "Some 150"]
  by (simp add: bbox_raises_def)

text \<open>
  Claim C8. When the DPI ceiling is \<open>None\<close>, 0 or negative, the planner returns
  exactly the original width and height, whatever the bounding-box query would do.
\<close>

theorem dpi_ceiling_absent_is_no_op:
  assumes "dpi_ceiling = None \<or> (\<exists>d. dpi_ceiling = Some d \<and> d \<le> 0)"
  shows "compute_target_dimensions rnd get_bbox page info ow oh dpi_ceiling = Inr (ow, oh)"
  using assms by (auto simp: compute_target_dimensions_def)

theorem dpi_ceiling_absent_is_no_op_witness:
  "compute_target_dimensions exact_arithmetic (bbox_raises RuntimeError) 0
     \<lparr>xref = 1, smask = 0\<rparr> 1000 800 None = Inr (1000, 800)
   \<and> compute_target_dimensions exact_arithmetic (bbox_returns 1 1) 0
       \<lparr>xref = 1, smask = 0\<rparr> 1000 800 (Some 0) = Inr (1000, 800)
   \<and> compute_target_dimensions exact_arithmetic (bbox_returns 1 1) 0
       \<lparr>xref = 1, smask = 0\<rparr> 1000 800 (Some (- 5)) = Inr (1000, 800)"
  using dpi_ceiling_absent_is_no_op [of None exact_arithmetic "bbox_raises RuntimeError" 0
      "\<lparr>xref = 1, smask = 0\<rparr>" 1000 800]
    dpi_ceiling_absent_is_no_op [of "Some 0" exact_arithmetic "bbox_returns 1 1" 0
      "\<lparr>xref = 1, smask = 0\<rparr>" 1000 800]
    dpi_ceiling_absent_is_no_op [of "Some (- 5)" exact_arithmetic "bbox_returns 1 1" 0
      "\<lparr>xref = 1, smask = 0\<rparr>" 1000 800]
  by simp

section \<open>Properties of the transparency detector\<close>

text \<open>
  Claim C6. The detector applies its rules in priority order: a set soft-mask flag gives
  \<open>True\<close> whatever the image is; otherwise mode RGBA or LA gives \<open>True\<close> iff the
  minimum of the alpha channel is below 255; otherwise mode P gives \<open>True\<close> for a byte
  array, \<open>value \<noteq> 255\<close> for a single index and \<open>False\<close> when the metadata is absent;
  every other mode gives \<open>False\<close>.
\<close>

theorem has_transparency_rules:
  "has_transparency img True = True
   \<and> (mode img = ''RGBA'' \<or> mode img = ''LA'' \<longrightarrow>
        (\<forall>n. alpha_lowest img = PyInt n \<longrightarrow> has_transparency img False = (n < 255))
      \<and> (\<forall>x. alpha_lowest img = PyFloat x \<longrightarrow> has_transparency img False = (x < 255)))
   \<and> (mode img = ''P'' \<longrightarrow>
        (info_transparency img = None \<longrightarrow> has_transparency img False = False)
      \<and> (\<forall>b. info_transparency img = Some (PyBytes b) \<longrightarrow> has_transparency img False = True)
      \<and> (\<forall>n. info_transparency img = Some (PyInt n) \<longrightarrow>
             has_transparency img False = (n \<noteq> 255)))
   \<and> (mode img \<noteq> ''RGBA'' \<and> mode img \<noteq> ''LA'' \<and> mode img \<noteq> ''P'' \<longrightarrow>
        has_transparency img False = False)"
  by (simp add: has_transparency_def py_int_less_255)

theorem has_transparency_rules_witness:
  "has_transparency \<lparr>mode = ''RGB'', alpha_lowest = PyOther, info_transparency = None\<rparr> True = True
   \<and> has_transparency \<lparr>mode = ''RGBA'', alpha_lowest = PyInt 128, info_transparency = None\<rparr> False
       = True
   \<and> has_transparency \<lparr>mode = ''LA'', alpha_lowest = PyInt 255, info_transparency = None\<rparr> False
       = False
   \<and> has_transparency \<lparr>mode = ''P'', alpha_lowest = PyOther, info_transparency = None\<rparr> False
       = False
   \<and> has_transparency \<lparr>mode = ''P'', alpha_lowest = PyOther,
        info_transparency = Some (PyBytes [CHR 0x00, CHR 0x01, CHR 0x02])\<rparr> False = True
   \<and> has_transparency \<lparr>mode = ''P'', alpha_lowest = PyOther,
        info_transparency = Some (PyInt 0)\<rparr> False = True
   \<and> has_transparency \<lparr>mode = ''P'', alpha_lowest = PyOther,
        info_transparency = Some (PyInt 255)\<rparr> False = False
   \<and> has_transparency \<lparr>mode = ''RGB'', alpha_lowest = PyOther, info_transparency = None\<rparr> False
       = False"
  using has_transparency_rules [of "\<lparr>mode = ''RGB'', alpha_lowest = PyOther, info_transparency = None\<rparr>"]
    has_transparency_rules [of "\<lparr>mode = ''RGBA'', alpha_lowest = PyInt 128, info_transparency = None\<rparr>"]
    has_transparency_rules [of "\<lparr>mode = ''LA'', alpha_lowest = PyInt 255, info_transparency = None\<rparr>"]
    has_transparency_rules [of "\<lparr>mode = ''P'', alpha_lowest = PyOther, info_transparency = None\<rparr>"]
    has_transparency_rules [of "\<lparr>mode = ''P'', alpha_lowest = PyOther,
        info_transparency = Some (PyBytes [CHR 0x00, CHR 0x01, CHR 0x02])\<rparr>"]
    has_transparency_rules [of "\<lparr>mode = ''P'', alpha_lowest = PyOther,
        info_transparency = Some (PyInt 0)\<rparr>"]
    has_transparency_rules [of "\<lparr>mode = ''P'', alpha_lowest = PyOther,
        info_transparency = Some (PyInt 255)\<rparr>"]
  by simp

section \<open>Properties of the compression statistics\<close>

text \<open>
  Claim C10. For a non-empty original, \<open>get_compression_stats\<close> returns the two
  lengths, their difference, and the difference divided by the original length times
  100 (two float operations); for an empty original the division raises
  \<open>ZeroDivisionError\<close>, for every compressed input.
\<close>

theorem get_compression_stats_result:
  "(original_bytes \<noteq> [] \<longrightarrow>
      get_compression_stats rnd original_bytes compressed_bytes =
        Inr \<lparr>stat_original_size = int (length original_bytes),
             stat_compressed_size = int (length compressed_bytes),
             stat_reduction_bytes = int (length original_bytes) - int (length compressed_bytes),
             stat_reduction_percent =
               rnd (rnd (of_int (int (length original_bytes) - int (length compressed_bytes))
                           / of_int (int (length original_bytes))) * 100)\<rparr>)
   \<and> (original_bytes = [] \<longrightarrow>
      get_compression_stats rnd original_bytes compressed_bytes = Inl ZeroDivisionError)"
  by (simp add: get_compression_stats_def Let_def)

text \<open>Scenario C of the specification, and the empty original.\<close>

theorem get_compression_stats_result_witness:
  "replicate 1000 (CHR ''x'') \<noteq> []
   \<and> get_compression_stats exact_arithmetic (replicate 1000 (CHR ''x''))
        (replicate 500 (CHR ''y'')) =
        Inr \<lparr>stat_original_size = 1000, stat_compressed_size = 500,
             stat_reduction_bytes = 500, stat_reduction_percent = 50\<rparr>
   \<and> get_compression_stats exact_arithmetic [] (replicate 500 (CHR ''y''))
        = Inl ZeroDivisionError"
  using get_compression_stats_result [of "replicate 1000 (CHR ''x'')" exact_arithmetic
      "replicate 500 (CHR ''y'')"]
    get_compression_stats_result [of "[]" exact_arithmetic "replicate 500 (CHR ''y'')"]
  by (simp add: exact_arithmetic_def)

section \<open>Outcomes of the stages of the optimiser\<close>

lemma replace_image_cases:
  assumes "replace_image E x s st = (r, st')"
  obtains (raised) e where "r = Inl e" "st' = st\<lparr>trace := trace st @ [ReplaceImage x s]\<rparr>"
    | (replaced) b where "r = Inr ()" "store st x = Some b" "replace_image_raises E x s = None"
        "st' = st\<lparr>trace := trace st @ [ReplaceImage x s],
                   store := (store st)(x \<mapsto> b\<lparr>image_bytes := s\<rparr>)\<rparr>"
  using assms by (auto simp: replace_image_def Let_def split: option.splits)

lemma replay_cached_cases:
  assumes "replay_cached E x c st = (r, st')"
  obtains (noop) "\<not> (optimized c \<and> data c \<noteq> None)" "r = Inr (False, original_size c, original_size c)" "st' = st"
    | (raised) e s where "optimized c" "data c = Some s" "r = Inl e"
        "st' = st\<lparr>trace := trace st @ [ReplaceImage x s]\<rparr>"
    | (replaced) b s where "optimized c" "data c = Some s" "store st x = Some b"
        "replace_image_raises E x s = None"
        "r = Inr (True, original_size c, optimized_size c)"
        "st' = st\<lparr>trace := trace st @ [ReplaceImage x s],
                   store := (store st)(x \<mapsto> b\<lparr>image_bytes := s\<rparr>)\<rparr>"
proof (cases "optimized c \<and> data c \<noteq> None")
  case False
  with assms have "r = Inr (False, original_size c, original_size c)" "st' = st"
    by (auto simp: replay_cached_def split: bool.splits option.splits)
  with False show ?thesis using noop by blast
next
  case True
  then obtain s where s: "optimized c" "data c = Some s" by auto
  obtain r0 st0 where r0: "replace_image E x s st = (r0, st0)" by (cases "replace_image E x s st")
  from r0 show ?thesis
  proof (cases rule: replace_image_cases)
    case (raised e)
    with assms s r0 show ?thesis using that(2) by (auto simp: replay_cached_def)
  next
    case (replaced b)
    with assms s r0 show ?thesis using that(3) by (auto simp: replay_cached_def)
  qed
qed

lemma acceptance_gate_cases:
  assumes "acceptance_gate E x d osize ob st = (r, st')"
  obtains (rejected) "gate_bound (float_round E) osize \<le> of_int (int (length ob))"
        "r = Inr (False, osize, osize)" "st' = record_unoptimized d osize st"
    | (raised) e where "\<not> gate_bound (float_round E) osize \<le> of_int (int (length ob))"
        "r = Inl e" "st' = st\<lparr>trace := trace st @ [ReplaceImage x ob]\<rparr>"
    | (accepted) b where "\<not> gate_bound (float_round E) osize \<le> of_int (int (length ob))"
        "store st x = Some b" "replace_image_raises E x ob = None"
        "r = Inr (True, osize, int (length ob))"
        "st' = st\<lparr>trace := trace st @ [ReplaceImage x ob],
                   store := (store st)(x \<mapsto> b\<lparr>image_bytes := ob\<rparr>),
                   cache := (cache st)(d \<mapsto> \<lparr>optimized = True, data = Some ob,
                      original_size = osize, optimized_size = int (length ob)\<rparr>)\<rparr>"
proof (cases "gate_bound (float_round E) osize \<le> of_int (int (length ob))")
  case True
  with assms show ?thesis using rejected by (auto simp: acceptance_gate_def Let_def)
next
  case False
  obtain r0 st0 where r0: "replace_image E x ob st = (r0, st0)" by (cases "replace_image E x ob st")
  from r0 show ?thesis
  proof (cases rule: replace_image_cases)
    case (raised e)
    with assms False r0 show ?thesis using that(2) by (auto simp: acceptance_gate_def Let_def)
  next
    case (replaced b)
    with assms False r0 show ?thesis using that(3) by (auto simp: acceptance_gate_def Let_def)
  qed
qed

lemma optimize_image_with_pyvips_cases:
  assumes "optimize_image_with_pyvips E ib iext ow oh tw th alpha q conv thr osize bits st = (r, st')"
  obtains (not_called) e where "r = Inl e" "st' = st"
    | (called) resize where "r = vips_encode E ib resize (vips_save_plan iext alpha q conv thr osize bits)"
        "st' = st\<lparr>trace := trace st @ [VipsEncode ib resize (vips_save_plan iext alpha q conv thr osize bits)]\<rparr>"
  using assms
  by (auto simp: optimize_image_with_pyvips_def Let_def split: option.splits if_splits)

lemma pil_stage_cases:
  assumes "pil_stage E ib iext ow oh tw th sm q conv thr osize bits st = (r, st')"
  obtains (not_called) e where "pil_open E ib = Inl e" "r = Inl e" "st' = st"
    | (called) im resize where "pil_open E ib = Inr im"
        "r = pil_encode E (pil_save_plan ib iext (mode im) (has_transparency im sm) resize q conv thr osize bits)"
        "st' = st\<lparr>trace := trace st @ [PilEncode (pil_save_plan ib iext (mode im) (has_transparency im sm) resize q conv thr osize bits)]\<rparr>"
  using assms
  by (auto simp: pil_stage_def Let_def split: sum.splits if_splits)


lemma permitted_replace [simp]: "permitted_call E info opts base ch (ReplaceImage (xref info) s)"
  by (simp add: permitted_call_def)


lemma gate_after_stage:
  assumes st1: "st1 = st\<lparr>trace := trace st @ evs1\<rparr>"
    and evs1: "\<forall>ev\<in>set evs1. P ev"
    and repl: "\<And>s. P (ReplaceImage x s)"
    and tail: "(case r1 of Inl e \<Rightarrow> (Inl e, st1)
                | Inr ob \<Rightarrow> acceptance_gate E x d osize ob st1) = (r, st')"
  obtains (error) e evs where "r = Inl e" "st' = st\<lparr>trace := trace st @ evs\<rparr>"
        "\<forall>ev\<in>set evs. P ev"
    | (recorded) evs where "r = Inr (False, osize, osize)"
        "st' = st\<lparr>trace := trace st @ evs,
                   cache := (cache st)(d \<mapsto> \<lparr>optimized = False, data = None,
                      original_size = osize, optimized_size = osize\<rparr>)\<rparr>"
        "\<forall>ev\<in>set evs. P ev"
    | (accepted) b ob evs where "\<not> gate_bound (float_round E) osize \<le> of_int (int (length ob))"
        "store st x = Some b" "replace_image_raises E x ob = None"
        "r = Inr (True, osize, int (length ob))"
        "st' = st\<lparr>trace := trace st @ evs @ [ReplaceImage x ob],
                   store := (store st)(x \<mapsto> b\<lparr>image_bytes := ob\<rparr>),
                   cache := (cache st)(d \<mapsto> \<lparr>optimized = True, data = Some ob,
                      original_size = osize, optimized_size = int (length ob)\<rparr>)\<rparr>"
        "\<forall>ev\<in>set evs. P ev"
proof (cases r1)
  case (Inl e)
  with tail st1 have "r = Inl e" "st' = st\<lparr>trace := trace st @ evs1\<rparr>" by auto
  with evs1 show ?thesis using error by blast
next
  case (Inr ob)
  with tail have g: "acceptance_gate E x d osize ob st1 = (r, st')" by simp
  from g show ?thesis
  proof (cases rule: acceptance_gate_cases)
    case rejected
    with st1 have "r = Inr (False, osize, osize)"
      "st' = st\<lparr>trace := trace st @ evs1,
               cache := (cache st)(d \<mapsto> \<lparr>optimized = False, data = None,
                  original_size = osize, optimized_size = osize\<rparr>)\<rparr>"
      by (simp_all add: record_unoptimized_def)
    with evs1 show ?thesis using recorded by blast
  next
    case (raised e)
    with st1 have "r = Inl e" "st' = st\<lparr>trace := trace st @ (evs1 @ [ReplaceImage x ob])\<rparr>"
      by simp_all
    moreover have "\<forall>ev\<in>set (evs1 @ [ReplaceImage x ob]). P ev"
      using evs1 repl by auto
    ultimately show ?thesis using error by blast
  next
    case (accepted b)
    with st1 have "r = Inr (True, osize, int (length ob))"
      "store st x = Some b"
      "st' = st\<lparr>trace := trace st @ evs1 @ [ReplaceImage x ob],
               store := (store st)(x \<mapsto> b\<lparr>image_bytes := ob\<rparr>),
               cache := (cache st)(d \<mapsto> \<lparr>optimized = True, data = Some ob,
                  original_size = osize, optimized_size = int (length ob)\<rparr>)\<rparr>"
      by simp_all
    with evs1 accepted(1,3) show ?thesis using that(3) by blast
  qed
qed

lemma step_outcome_failed_nil:
  "store st (xref info) = Some base \<Longrightarrow> step_outcome E info opts st (Inl e) st"
  using step_outcome.failed [where st = st and info = info and base = base and evs = "[]" and E = E and opts = opts and e = e] by simp

lemma step_outcome_recorded_nil:
  assumes "store st (xref info) = Some base" "cache st (sha1 E (image_bytes base)) = None"
  shows "step_outcome E info opts st
           (Inr (False, int (length (image_bytes base)), int (length (image_bytes base))))
           (record_unoptimized (sha1 E (image_bytes base)) (int (length (image_bytes base))) st)"
  using step_outcome.recorded [where st = st and info = info and base = base and evs = "[]" and E = E and opts = opts] assms
  by (simp add: record_unoptimized_def)

lemma replay_outcome:
  assumes base: "store st (xref info) = Some base"
    and hit: "cache st (sha1 E (image_bytes base)) = Some c"
    and run: "replay_cached E (xref info) c st = (r, st')"
  shows "step_outcome E info opts st r st'"
  using run
proof (cases rule: replay_cached_cases)
  case noop
  with base hit show ?thesis using step_outcome.hit_noop by blast
next
  case (raised e s)
  have "\<forall>ev\<in>set [ReplaceImage (xref info) s]. permitted_call E info opts base (cache st) ev"
    by simp
  with base raised show ?thesis using step_outcome.failed by blast
next
  case (replaced b s)
  with base hit show ?thesis using step_outcome.hit_replayed [where st = st and info = info and base = base and E = E and c = c and s = s and opts = opts] by simp
qed

lemma tail_outcome:
  assumes base: "store st (xref info) = Some base"
    and miss: "cache st (sha1 E (image_bytes base)) = None"
    and st1: "st1 = st\<lparr>trace := trace st @ evs1\<rparr>"
    and evs1: "\<forall>ev\<in>set evs1. permitted_call E info opts base (cache st) ev"
    and tail: "(case r1 of Inl e \<Rightarrow> (Inl e, st1)
                | Inr ob \<Rightarrow> acceptance_gate E (xref info) (sha1 E (image_bytes base))
                              (int (length (image_bytes base))) ob st1) = (r, st')"
  shows "step_outcome E info opts st r st'"
  using st1 evs1 permitted_replace tail
proof (cases rule: gate_after_stage)
  case (error e evs)
  with base show ?thesis using step_outcome.failed by blast
next
  case (recorded evs)
  with base miss show ?thesis using step_outcome.recorded by blast
next
  case (accepted b ob evs)
  with base miss show ?thesis using step_outcome.accepted [where st = st and info = info and base = base and E = E and ob = ob and evs = evs and opts = opts] by simp
qed

lemma pil_stage_outcome:
  assumes base: "store st (xref info) = Some base"
    and miss: "cache st (sha1 E (image_bytes base)) = None"
    and tail: "(case pil_stage E (image_bytes base) (lower (ext base)) ow oh tw th (smask info \<noteq> 0)
                    (image_quality opts) (convert_large_pngs_to_jpeg opts) (png_to_jpeg_threshold opts)
                    (int (length (image_bytes base))) (case bpc base of None \<Rightarrow> 8 | Some v \<Rightarrow> v) st of
             (Inl e, st1) \<Rightarrow> (Inl e, st1)
           | (Inr ob, st1) \<Rightarrow> acceptance_gate E (xref info) (sha1 E (image_bytes base))
                              (int (length (image_bytes base))) ob st1) = (r, st')"
  shows "step_outcome E info opts st r st'"
proof -
  let ?stage = "pil_stage E (image_bytes base) (lower (ext base)) ow oh tw th (smask info \<noteq> 0)
                    (image_quality opts) (convert_large_pngs_to_jpeg opts) (png_to_jpeg_threshold opts)
                    (int (length (image_bytes base))) (case bpc base of None \<Rightarrow> 8 | Some v \<Rightarrow> v) st"
  obtain r1 st1 where stage: "?stage = (r1, st1)" by (cases ?stage)
  with tail have tail': "(case r1 of Inl e \<Rightarrow> (Inl e, st1)
      | Inr ob \<Rightarrow> acceptance_gate E (xref info) (sha1 E (image_bytes base))
                              (int (length (image_bytes base))) ob st1) = (r, st')"
    by (simp split: sum.splits)
  from stage obtain evs1 where st1: "st1 = st\<lparr>trace := trace st @ evs1\<rparr>"
    and evs1: "\<forall>ev\<in>set evs1. permitted_call E info opts base (cache st) ev"
  proof (cases rule: pil_stage_cases)
    case (not_called e)
    then have "st1 = st\<lparr>trace := trace st @ []\<rparr>" by simp
    then show ?thesis using that by (metis empty_iff empty_set)
  next
    case (called im rs)
    have "permitted_call E info opts base (cache st)
            (PilEncode (pil_save_plan (image_bytes base) (lower (ext base)) (mode im)
               (has_transparency im (smask info \<noteq> 0)) rs (image_quality opts)
               (convert_large_pngs_to_jpeg opts) (png_to_jpeg_threshold opts)
               (int (length (image_bytes base))) (case bpc base of None \<Rightarrow> 8 | Some v \<Rightarrow> v)))"
      using called(1) miss by (auto simp: permitted_call_def Let_def)
    with called(3) show ?thesis using that by simp
  qed
  from base miss st1 evs1 tail' show ?thesis by (rule tail_outcome)
qed

lemma optimize_image_with_pil_outcome:
  assumes run: "optimize_image_with_pil E page info opts st = (r, st')"
  shows "step_outcome E info opts st r st'"
proof (cases "store st (xref info)")
  case None
  with run show ?thesis
    by (auto simp: optimize_image_with_pil_def extract_image_def intro: step_outcome.no_image)
next
  case (Some base)
  show ?thesis
  proof (cases "cache st (sha1 E (image_bytes base))")
    case hit: (Some c)
    with run Some have "replay_cached E (xref info) c st = (r, st')"
      by (simp add: optimize_image_with_pil_def extract_image_def Let_def)
    with Some hit show ?thesis by (rule replay_outcome)
  next
    case miss: None
    show ?thesis
    proof (cases "skip_small_images opts
        \<and> int (length (image_bytes base)) \<le> small_image_threshold opts")
      case True
      with run Some miss show ?thesis
        by (auto simp: optimize_image_with_pil_def extract_image_def Let_def
            intro: step_outcome_recorded_nil)
    next
      case not_small: False
      show ?thesis
      proof (cases "(case bpc base of None \<Rightarrow> 8 | Some v \<Rightarrow> v) \<le> 1 \<and> lower (ext base) \<noteq> ''png''")
        case True
        with run Some miss not_small show ?thesis
          by (auto simp: optimize_image_with_pil_def extract_image_def Let_def
              intro: step_outcome_recorded_nil)
      next
        case not_lowbit: False
        show ?thesis
        proof (cases "compute_target_dimensions (float_round E) (get_image_bbox E) page info (width base)
            (height base) (max_dpi opts)")
          case (Inl e)
          with run Some miss not_small not_lowbit show ?thesis
            by (auto simp: optimize_image_with_pil_def extract_image_def Let_def
                intro: step_outcome_failed_nil)
        next
          case (Inr dims)
          obtain tw th where dims: "dims = (tw, th)" by (cases dims)
          with run Some miss not_small not_lowbit Inr
          have "(case pil_stage E (image_bytes base) (lower (ext base)) (width base) (height base)
                    tw th (smask info \<noteq> 0)
                    (image_quality opts) (convert_large_pngs_to_jpeg opts) (png_to_jpeg_threshold opts)
                    (int (length (image_bytes base))) (case bpc base of None \<Rightarrow> 8 | Some v \<Rightarrow> v) st of
             (Inl e, st1) \<Rightarrow> (Inl e, st1)
           | (Inr ob, st1) \<Rightarrow> acceptance_gate E (xref info) (sha1 E (image_bytes base))
                              (int (length (image_bytes base))) ob st1) = (r, st')"
            by (simp add: optimize_image_with_pil_def extract_image_def Let_def)
          with Some miss show ?thesis by (rule pil_stage_outcome)
        qed
      qed
    qed
  qed
qed


lemma pyvips_attempt_outcome:
  assumes base: "store st (xref info) = Some base"
    and miss: "cache st (sha1 E (image_bytes base)) = None"
    and run: "pyvips_attempt E info opts (sha1 E (image_bytes base)) (image_bytes base)
                (lower (ext base)) ow oh tw th (int (length (image_bytes base)))
                (case bpc base of None \<Rightarrow> 8 | Some v \<Rightarrow> v) st = (r, st')"
  shows "step_outcome E info opts st r st'"
proof -
  let ?ib = "image_bytes base"
  let ?alpha = "(if smask info \<noteq> 0 \<or> lower (ext base) = ''png''
            then (case pil_open E ?ib of
                    Inl e \<Rightarrow> Inl e
                  | Inr pil_image \<Rightarrow> Inr (has_transparency pil_image (smask info \<noteq> 0)))
            else Inr False)"
  show ?thesis
  proof (cases ?alpha)
    case (Inl e)
    with run have "r = Inl e" "st' = st" by (simp_all add: pyvips_attempt_def)
    with base show ?thesis by (simp add: step_outcome_failed_nil)
  next
    case (Inr alpha)
    let ?vips = "optimize_image_with_pyvips E ?ib (lower (ext base)) ow oh tw th alpha
                  (image_quality opts) (convert_large_pngs_to_jpeg opts)
                  (png_to_jpeg_threshold opts) (int (length ?ib))
                  (case bpc base of None \<Rightarrow> 8 | Some v \<Rightarrow> v) st"
    obtain r1 st1 where vips: "?vips = (r1, st1)" by (cases ?vips)
    with run Inr have tail: "(case r1 of Inl e \<Rightarrow> (Inl e, st1)
        | Inr ob \<Rightarrow> acceptance_gate E (xref info) (sha1 E ?ib) (int (length ?ib)) ob st1) = (r, st')"
      by (simp add: pyvips_attempt_def split: sum.splits)
    have alpha_ok: "if smask info \<noteq> 0 \<or> lower (ext base) = ''png''
        then (\<exists>im. pil_open E ?ib = Inr im \<and> alpha = has_transparency im (smask info \<noteq> 0))
        else alpha = False"
      using Inr by (auto split: if_splits sum.splits)
    from vips obtain evs1 where st1: "st1 = st\<lparr>trace := trace st @ evs1\<rparr>"
      and evs1: "\<forall>ev\<in>set evs1. permitted_call E info opts base (cache st) ev"
    proof (cases rule: optimize_image_with_pyvips_cases)
      case (not_called e)
      then have "st1 = st\<lparr>trace := trace st @ []\<rparr>" by simp
      then show ?thesis using that by (metis empty_iff empty_set)
    next
      case (called rs)
      have "permitted_call E info opts base (cache st)
              (VipsEncode ?ib rs (vips_save_plan (lower (ext base)) alpha (image_quality opts)
                 (convert_large_pngs_to_jpeg opts) (png_to_jpeg_threshold opts)
                 (int (length ?ib)) (case bpc base of None \<Rightarrow> 8 | Some v \<Rightarrow> v)))"
        unfolding permitted_call_def Let_def using miss alpha_ok by auto
      with called(2) show ?thesis using that by simp
    qed
    from base miss st1 evs1 tail show ?thesis by (rule tail_outcome)
  qed
qed

lemma step_outcome_after_prefix:
  assumes base: "store st (xref info) = Some base"
    and miss: "cache st (sha1 E (image_bytes base)) = None"
    and evs1: "\<forall>ev\<in>set evs1. permitted_call E info opts base (cache st) ev"
    and step: "step_outcome E info opts (st\<lparr>trace := trace st @ evs1\<rparr>) r st'"
  shows "step_outcome E info opts st r st'"
  using step
proof (cases rule: step_outcome.cases)
  case (no_image e)
  with base show ?thesis by simp
next
  case (failed base' evs e)
  with base have "base' = base" by simp
  with failed evs1 have "\<forall>ev\<in>set (evs1 @ evs). permitted_call E info opts base (cache st) ev"
    by auto
  moreover from failed have "st' = st\<lparr>trace := trace st @ (evs1 @ evs)\<rparr>" by simp
  ultimately show ?thesis using failed(1) base step_outcome.failed by blast
next
  case (hit_noop base' c)
  with base miss show ?thesis by simp
next
  case (hit_replayed base' c s)
  with base miss show ?thesis by simp
next
  case (recorded base' evs)
  with base have b: "base' = base" by simp
  with recorded evs1 have "\<forall>ev\<in>set (evs1 @ evs). permitted_call E info opts base (cache st) ev"
    by auto
  moreover from recorded b have "st' = st\<lparr>trace := trace st @ (evs1 @ evs),
       cache := (cache st)(sha1 E (image_bytes base) \<mapsto>
                  \<lparr>optimized = False, data = None,
                   original_size = int (length (image_bytes base)),
                   optimized_size = int (length (image_bytes base))\<rparr>)\<rparr>" by simp
  ultimately show ?thesis using recorded(1) b base miss
      step_outcome.recorded [where st = st and info = info and base = base
        and evs = "evs1 @ evs" and E = E and opts = opts]
    by simp
next
  case (accepted base' ob evs)
  with base have b: "base' = base" by simp
  with accepted evs1 have "\<forall>ev\<in>set (evs1 @ evs). permitted_call E info opts base (cache st) ev"
    by auto
  moreover from accepted b have "st' = st\<lparr>trace := trace st @ (evs1 @ evs) @ [ReplaceImage (xref info) ob],
       store := (store st)(xref info \<mapsto> base\<lparr>image_bytes := ob\<rparr>),
       cache := (cache st)(sha1 E (image_bytes base) \<mapsto>
                  \<lparr>optimized = True, data = Some ob,
                   original_size = int (length (image_bytes base)),
                   optimized_size = int (length ob)\<rparr>)\<rparr>" by simp
  ultimately show ?thesis using accepted(1,5,6) b base miss
      step_outcome.accepted [where st = st and info = info and base = base and ob = ob
        and evs = "evs1 @ evs" and E = E and opts = opts]
    by simp
qed

lemma optimize_image_outcome:
  assumes run: "optimize_image E page info opts st = (r, st')"
  shows "step_outcome E info opts st r st'"
proof (cases "store st (xref info)")
  case None
  with run show ?thesis
    by (auto simp: optimize_image_def extract_image_def intro: step_outcome.no_image)
next
  case (Some base)
  show ?thesis
  proof (cases "cache st (sha1 E (image_bytes base))")
    case hit: (Some c)
    with run Some have "replay_cached E (xref info) c st = (r, st')"
      by (simp add: optimize_image_def extract_image_def Let_def)
    with Some hit show ?thesis by (rule replay_outcome)
  next
    case miss: None
    show ?thesis
    proof (cases "skip_small_images opts
        \<and> int (length (image_bytes base)) \<le> small_image_threshold opts")
      case True
      with run Some miss show ?thesis
        by (auto simp: optimize_image_def extract_image_def Let_def
            intro: step_outcome_recorded_nil)
    next
      case not_small: False
      show ?thesis
      proof (cases "(case bpc base of None \<Rightarrow> 8 | Some v \<Rightarrow> v) \<le> 1 \<and> lower (ext base) \<noteq> ''png''")
        case True
        with run Some miss not_small show ?thesis
          by (auto simp: optimize_image_def extract_image_def Let_def
              intro: step_outcome_recorded_nil)
      next
        case not_lowbit: False
        show ?thesis
        proof (cases "compute_target_dimensions (float_round E) (get_image_bbox E) page info (width base)
            (height base) (max_dpi opts)")
          case (Inl e)
          with run Some miss not_small not_lowbit show ?thesis
            by (auto simp: optimize_image_def extract_image_def Let_def
                intro: step_outcome_failed_nil)
        next
          case (Inr dims)
          obtain tw th where dims: "dims = (tw, th)" by (cases dims)
          let ?att = "pyvips_attempt E info opts (sha1 E (image_bytes base)) (image_bytes base)
                (lower (ext base)) (width base) (height base) tw th
                (int (length (image_bytes base)))
                (case bpc base of None \<Rightarrow> 8 | Some v \<Rightarrow> v) st"
          obtain r1 st1 where att: "?att = (r1, st1)" by (cases ?att)
          with Some miss have out1: "step_outcome E info opts st r1 st1"
            by (rule pyvips_attempt_outcome)
          from run Some miss not_small not_lowbit Inr dims att
          have rest: "(case r1 of Inr result \<Rightarrow> (Inr result, st1)
                       | Inl e \<Rightarrow> optimize_image_with_pil E page info opts st1) = (r, st')"
            by (simp add: optimize_image_def extract_image_def Let_def split: sum.splits)
          show ?thesis
          proof (cases r1)
            case (Inr result)
            with rest out1 show ?thesis by simp
          next
            case (Inl e)
            with rest have pil: "optimize_image_with_pil E page info opts st1 = (r, st')" by simp
            from out1 Inl obtain evs1 where st1: "st1 = st\<lparr>trace := trace st @ evs1\<rparr>"
              and evs1: "\<forall>ev\<in>set evs1. permitted_call E info opts base (cache st) ev"
            proof (cases rule: step_outcome.cases)
              case (no_image e')
              with Some show ?thesis by simp
            next
              case (failed base' evs e')
              with Some show ?thesis using that by simp
            qed simp_all
            from pil have "step_outcome E info opts st1 r st'"
              by (rule optimize_image_with_pil_outcome)
            with st1 have "step_outcome E info opts (st\<lparr>trace := trace st @ evs1\<rparr>) r st'"
              by simp
            with Some miss evs1 show ?thesis by (rule step_outcome_after_prefix)
          qed
        qed
      qed
    qed
  qed
qed

section \<open>Frame properties of one image and of the loop\<close>

lemma events_since_append [simp]:
  "events_since st (st\<lparr>trace := trace st @ evs\<rparr>) = evs"
  by (simp add: events_since_def)

lemma events_since_append_more [simp]:
  "events_since st (st\<lparr>trace := trace st @ evs, cache := c\<rparr>) = evs"
  "events_since st (st\<lparr>trace := trace st @ evs, store := s\<rparr>) = evs"
  "events_since st (st\<lparr>trace := trace st @ evs, store := s, cache := c\<rparr>) = evs"
  by (simp_all add: events_since_def)

lemma events_since_same [simp]: "events_since st st = []"
  by (simp add: events_since_def)

lemma optimize_image_error_unchanged:
  assumes "optimize_image E page info opts st = (Inl e, st')"
  shows "store st' = store st \<and> cache st' = cache st"
  using optimize_image_outcome [OF assms]
  by (cases rule: step_outcome.cases) simp_all



lemma pil_save_plan_source [simp]:
  "pil_source (pil_save_plan ib iext m alpha rs q conv thr osize bits) = ib"
  by (simp add: pil_save_plan_def Let_def)



lemma encodes_of_append [simp]:
  "encodes_of E d (xs @ ys) = encodes_of E d xs @ encodes_of E d ys"
  by (simp add: encodes_of_def)

lemma encodes_of_replace [simp]: "encodes_of E d [ReplaceImage x s] = []"
  by (simp add: encodes_of_def)



lemma replay_cached_present:
  assumes "store st x = Some base"
  shows "replay_cached E x c st =
     (if optimized c \<and> data c \<noteq> None
      then (case replace_image_raises E x (the (data c)) of
              None \<Rightarrow>
                (Inr (True, original_size c, optimized_size c),
                 st\<lparr>trace := trace st @ [ReplaceImage x (the (data c))],
                     store := (store st)(x \<mapsto> base\<lparr>image_bytes := the (data c)\<rparr>)\<rparr>)
            | Some e \<Rightarrow> (Inl e, st\<lparr>trace := trace st @ [ReplaceImage x (the (data c))]\<rparr>))
      else (Inr (False, original_size c, original_size c), st))"
  using assms
  by (auto simp: replay_cached_def replace_image_def Let_def split: bool.splits option.splits)

lemma optimize_image_hit:
  assumes "store st (xref info) = Some base" and "cache st (sha1 E (image_bytes base)) = Some c"
  shows "optimize_image E page info opts st = replay_cached E (xref info) c st"
  using assms by (simp add: optimize_image_def extract_image_def Let_def)


lemma compress_loop_error_continues:
  assumes "optimize_image E page info opts st = (Inl e, st')"
  shows "compress_loop E opts ((page, info) # rest) totals st = compress_loop E opts rest totals st'"
  using assms by (cases totals) simp







section \<open>Evaluation on the samples\<close>

lemmas eval_defs = exact_arithmetic_def gate_bound_def sample_image_def sample_env_def sample_options_def twin_document_def
  default_options_def failing_backends_env_def refusing_host_env_def no_gain_env_def
  pil_only_env_def broken_page_document_def
  mixed_depth_document_def png_image_def png_document_def
  compress_document_def iter_unique_images_def initial_state_def optimize_image_def
  optimize_image_with_pil_def pyvips_attempt_def optimize_image_with_pyvips_def pil_stage_def
  acceptance_gate_def replay_cached_def replace_image_def record_unoptimized_def extract_image_def
  compute_target_dimensions_def int_mul_float_def int_true_div_def float_overflow_def
  bbox_returns_def bbox_raises_def py_int_def vips_save_plan_def pil_save_plan_def
  lower_def lower_char_def upper_def upper_char_def has_transparency_def encodes_of_def events_since_def Let_def


section \<open>Content cache\<close>




section \<open>Acceptance gate\<close>

lemma acceptance_gate_result:
  assumes "store st x = Some b"
  shows "acceptance_gate E x d osize ob st =
     (if gate_bound (float_round E) osize \<le> of_int (int (length ob))
      then (Inr (False, osize, osize),
            st\<lparr>cache := (cache st)(d \<mapsto>
               \<lparr>optimized = False, data = None, original_size = osize, optimized_size = osize\<rparr>)\<rparr>)
      else (case replace_image_raises E x ob of
              None \<Rightarrow>
                (Inr (True, osize, int (length ob)),
                 st\<lparr>trace := trace st @ [ReplaceImage x ob],
                    store := (store st)(x \<mapsto> b\<lparr>image_bytes := ob\<rparr>),
                    cache := (cache st)(d \<mapsto>
                      \<lparr>optimized = True, data = Some ob, original_size = osize,
                       optimized_size = int (length ob)\<rparr>)\<rparr>)
            | Some e \<Rightarrow> (Inl e, st\<lparr>trace := trace st @ [ReplaceImage x ob]\<rparr>)))"
  using assms
  by (simp add: acceptance_gate_def replace_image_def record_unoptimized_def Let_def
      split: option.splits)

lemma optimize_image_reaches_pyvips:
  assumes "store st (xref info) = Some base"
    and "cache st (sha1 E (image_bytes base)) = None"
    and "\<not> (skip_small_images opts
            \<and> int (length (image_bytes base)) \<le> small_image_threshold opts)"
    and "\<not> ((case bpc base of None \<Rightarrow> 8 | Some v \<Rightarrow> v) \<le> 1 \<and> lower (ext base) \<noteq> ''png'')"
    and "compute_target_dimensions (float_round E) (get_image_bbox E) page info (width base)
           (height base) (max_dpi opts) = Inr (tw, th)"
  shows "optimize_image E page info opts st =
     (case pyvips_attempt E info opts (sha1 E (image_bytes base)) (image_bytes base)
             (lower (ext base)) (width base) (height base) tw th
             (int (length (image_bytes base)))
             (case bpc base of None \<Rightarrow> 8 | Some v \<Rightarrow> v) st of
        (Inr result, st') \<Rightarrow> (Inr result, st')
      | (Inl e, st') \<Rightarrow> optimize_image_with_pil E page info opts st')"
  by (simp add: optimize_image_def extract_image_def Let_def assms)

lemma optimize_image_with_pil_reaches_stage:
  assumes "store st (xref info) = Some base"
    and "cache st (sha1 E (image_bytes base)) = None"
    and "\<not> (skip_small_images opts
            \<and> int (length (image_bytes base)) \<le> small_image_threshold opts)"
    and "\<not> ((case bpc base of None \<Rightarrow> 8 | Some v \<Rightarrow> v) \<le> 1 \<and> lower (ext base) \<noteq> ''png'')"
    and "compute_target_dimensions (float_round E) (get_image_bbox E) page info (width base)
           (height base) (max_dpi opts) = Inr (tw, th)"
  shows "optimize_image_with_pil E page info opts st =
     (case pil_stage E (image_bytes base) (lower (ext base)) (width base) (height base) tw th
             (smask info \<noteq> 0) (image_quality opts) (convert_large_pngs_to_jpeg opts)
             (png_to_jpeg_threshold opts) (int (length (image_bytes base)))
             (case bpc base of None \<Rightarrow> 8 | Some v \<Rightarrow> v) st of
        (Inl e, st') \<Rightarrow> (Inl e, st')
      | (Inr optimized_bytes, st') \<Rightarrow>
          acceptance_gate E (xref info) (sha1 E (image_bytes base))
            (int (length (image_bytes base))) optimized_bytes st')"
  by (simp add: optimize_image_with_pil_def extract_image_def Let_def assms)

lemma pyvips_attempt_error_unchanged:
  assumes "store st (xref info) = Some base"
    and "cache st (sha1 E (image_bytes base)) = None"
    and "pyvips_attempt E info opts (sha1 E (image_bytes base)) (image_bytes base)
           (lower (ext base)) ow oh tw th (int (length (image_bytes base)))
           (case bpc base of None \<Rightarrow> 8 | Some v \<Rightarrow> v) st = (Inl e, st1)"
  shows "store st1 = store st \<and> cache st1 = cache st"
  using pyvips_attempt_outcome [OF assms]
  by (cases rule: step_outcome.cases) auto

lemma optimize_image_mutates_only_accepted:
  assumes "optimize_image E page info opts st = (r, st')"
  shows "store st' = store st
       \<or> (\<exists>base stream c a b. store st (xref info) = Some base \<and> r = Inr (True, a, b)
             \<and> store st' = (store st)(xref info \<mapsto> base\<lparr>image_bytes := stream\<rparr>)
             \<and> cache st' (sha1 E (image_bytes base)) = Some c \<and> optimized c
             \<and> data c = Some stream)"
  using optimize_image_outcome [OF assms]
  by (cases rule: step_outcome.cases) auto

lemma optimize_image_fresh_accept:
  assumes "optimize_image E page info opts st = (r, st')"
    and "store st (xref info) = Some base" and "cache st (sha1 E (image_bytes base)) = None"
    and "r = Inr (True, a, b)"
  shows "a = int (length (image_bytes base)) \<and> (of_int b :: rat) < gate_bound (float_round E) a"
  using optimize_image_outcome [OF assms(1)] assms(2-)
  by (cases rule: step_outcome.cases) auto

lemma optimize_image_fresh_reject:
  assumes "optimize_image E page info opts st = (r, st')"
    and "store st (xref info) = Some base" and "cache st (sha1 E (image_bytes base)) = None"
    and "r = Inr (False, a, b)"
  shows "a = int (length (image_bytes base)) \<and> b = a \<and> store st' = store st
       \<and> cache st' (sha1 E (image_bytes base))
           = Some \<lparr>optimized = False, data = None, original_size = a, optimized_size = a\<rparr>"
  using optimize_image_outcome [OF assms(1)] assms(2-)
  by (cases rule: step_outcome.cases) auto

text \<open>
  Claim C2 as stated fails where \<open>replace_image\<close> raises: the encoder's output is
  below 98 percent of the original size and \<open>replace_image\<close> is called, but no
  Accepted outcome is cached and the call of \<open>optimize_image\<close> ends in the
  exception.
\<close>

theorem gain_without_accepted_entry:
  "vips_encode refusing_host_env ''aaaaaaaaaa'' None (VipsJpeg 90) = Inr ''aaaaa''
   \<and> (of_int (int (length ''aaaaa'')) :: rat)
        < gate_bound (float_round refusing_host_env) (int (length ''aaaaaaaaaa''))
   \<and> fst (optimize_image refusing_host_env 0 \<lparr>xref = 1, smask = 0\<rparr> sample_options
             (initial_state twin_document)) = Inl RuntimeError
   \<and> cache (snd (optimize_image refusing_host_env 0 \<lparr>xref = 1, smask = 0\<rparr> sample_options
             (initial_state twin_document))) ''aaaaaaaaaa'' = None
   \<and> ReplaceImage 1 ''aaaaa'' \<in> set (trace (snd (optimize_image refusing_host_env 0
             \<lparr>xref = 1, smask = 0\<rparr> sample_options (initial_state twin_document))))"
  by (simp add: eval_defs)

text \<open>
  Claim C2, amended. Take an image that reaches encoding in \<open>optimize_image\<close>: its
  digest is not cached, it is not skipped as small or for its bit depth, and the planner
  returns. When the primary backend returns an output with
  \<open>optimized_size \<ge> original_size * 0.98\<close>, \<open>optimize_image\<close> does not call
  \<open>replace_image\<close>, records \<open>optimized = False\<close> with the original size twice and
  returns \<open>(False, original_size, original_size)\<close>. When the output is below the bound,
  \<open>replace_image\<close> is called at the image's object id; when that call returns, the
  stored bytes are the output, the Accepted outcome is cached and the result is
  \<open>(True, original_size, optimized_size)\<close>; when it raises, nothing is cached and the
  secondary backend takes over. The gate of \<open>optimize_image_with_pil\<close> decides in
  the same way on the output of the secondary backend, except that an exception of
  \<open>replace_image\<close> ends the call. When the primary attempt raises,
  \<open>optimize_image\<close> is \<open>optimize_image_with_pil\<close> on a state with the same
  document and cache. For every call of \<open>optimize_image\<close>, the document changes only
  at the image's object id and only with an Accepted entry for its digest; a result
  \<open>True\<close> on a digest not cached before has \<open>optimized_size < original_size * 0.98\<close>,
  and a result \<open>False\<close> on such a digest leaves the document as it was and records
  the unoptimised entry.
\<close>

theorem acceptance_gate_decides:
  assumes "store st (xref info) = Some base"
    and "ib = image_bytes base" and "d = sha1 E ib" and "osize = int (length ib)"
    and "iext = lower (ext base)" and "bits = (case bpc base of None \<Rightarrow> 8 | Some v \<Rightarrow> v)"
    and "cache st d = None"
    and "\<not> (skip_small_images opts \<and> osize \<le> small_image_threshold opts)"
    and "\<not> (bits \<le> 1 \<and> iext \<noteq> ''png'')"
    and "compute_target_dimensions (float_round E) (get_image_bbox E) page info (width base)
           (height base) (max_dpi opts) = Inr (tw, th)"
  shows
    "(\<forall>has_alpha ob st1.
        (if smask info \<noteq> 0 \<or> iext = ''png''
         then (case pil_open E ib of
                 Inl e \<Rightarrow> Inl e
               | Inr im \<Rightarrow> Inr (has_transparency im (smask info \<noteq> 0)))
         else Inr False) = Inr has_alpha
        \<and> optimize_image_with_pyvips E ib iext (width base) (height base) tw th has_alpha
            (image_quality opts) (convert_large_pngs_to_jpeg opts)
            (png_to_jpeg_threshold opts) osize bits st = (Inr ob, st1)
        \<longrightarrow> optimize_image E page info opts st =
             (if gate_bound (float_round E) osize \<le> of_int (int (length ob))
              then (Inr (False, osize, osize),
                    st1\<lparr>cache := (cache st)(d \<mapsto>
                       \<lparr>optimized = False, data = None, original_size = osize,
                        optimized_size = osize\<rparr>)\<rparr>)
              else (case replace_image_raises E (xref info) ob of
                      None \<Rightarrow>
                        (Inr (True, osize, int (length ob)),
                         st1\<lparr>trace := trace st1 @ [ReplaceImage (xref info) ob],
                             store := (store st)(xref info \<mapsto> base\<lparr>image_bytes := ob\<rparr>),
                             cache := (cache st)(d \<mapsto>
                               \<lparr>optimized = True, data = Some ob, original_size = osize,
                                optimized_size = int (length ob)\<rparr>)\<rparr>)
                    | Some e \<Rightarrow>
                        optimize_image_with_pil E page info opts
                          (st1\<lparr>trace := trace st1 @ [ReplaceImage (xref info) ob]\<rparr>))))
     \<and> (\<forall>s2 ob s3.
          store s2 = store st \<and> cache s2 = cache st
          \<and> pil_stage E ib iext (width base) (height base) tw th (smask info \<noteq> 0)
              (image_quality opts) (convert_large_pngs_to_jpeg opts)
              (png_to_jpeg_threshold opts) osize bits s2 = (Inr ob, s3)
          \<longrightarrow> optimize_image_with_pil E page info opts s2 =
             (if gate_bound (float_round E) osize \<le> of_int (int (length ob))
              then (Inr (False, osize, osize),
                    s3\<lparr>cache := (cache st)(d \<mapsto>
                       \<lparr>optimized = False, data = None, original_size = osize,
                        optimized_size = osize\<rparr>)\<rparr>)
              else (case replace_image_raises E (xref info) ob of
                      None \<Rightarrow>
                        (Inr (True, osize, int (length ob)),
                         s3\<lparr>trace := trace s3 @ [ReplaceImage (xref info) ob],
                            store := (store st)(xref info \<mapsto> base\<lparr>image_bytes := ob\<rparr>),
                            cache := (cache st)(d \<mapsto>
                              \<lparr>optimized = True, data = Some ob, original_size = osize,
                               optimized_size = int (length ob)\<rparr>)\<rparr>)
                    | Some e \<Rightarrow>
                        (Inl e, s3\<lparr>trace := trace s3 @ [ReplaceImage (xref info) ob]\<rparr>))))
     \<and> (\<forall>e st1.
          pyvips_attempt E info opts d ib iext (width base) (height base) tw th osize bits st
            = (Inl e, st1)
          \<longrightarrow> optimize_image E page info opts st = optimize_image_with_pil E page info opts st1
              \<and> store st1 = store st \<and> cache st1 = cache st)
     \<and> (\<forall>page' info' opts' s r s'. optimize_image E page' info' opts' s = (r, s') \<longrightarrow>
          (store s' = store s
           \<or> (\<exists>base' stream c a b. store s (xref info') = Some base' \<and> r = Inr (True, a, b)
                 \<and> store s' = (store s)(xref info' \<mapsto> base'\<lparr>image_bytes := stream\<rparr>)
                 \<and> cache s' (sha1 E (image_bytes base')) = Some c \<and> optimized c
                 \<and> data c = Some stream))
          \<and> (\<forall>base' a b. store s (xref info') = Some base'
                 \<and> cache s (sha1 E (image_bytes base')) = None \<and> r = Inr (True, a, b) \<longrightarrow>
                 a = int (length (image_bytes base'))
                 \<and> (of_int b :: rat) < gate_bound (float_round E) a)
          \<and> (\<forall>base' a b. store s (xref info') = Some base'
                 \<and> cache s (sha1 E (image_bytes base')) = None \<and> r = Inr (False, a, b) \<longrightarrow>
                 a = int (length (image_bytes base')) \<and> b = a \<and> store s' = store s
                 \<and> cache s' (sha1 E (image_bytes base'))
                     = Some \<lparr>optimized = False, data = None, original_size = a,
                             optimized_size = a\<rparr>))"
proof -
  note route = assms(1) assms(7) [unfolded assms(3) assms(2)]
    assms(8) [unfolded assms(4) assms(2)] assms(9) [unfolded assms(5) assms(6)] assms(10)
  have primary: "optimize_image E page info opts st =
             (if gate_bound (float_round E) osize \<le> of_int (int (length ob))
              then (Inr (False, osize, osize),
                    st1\<lparr>cache := (cache st)(d \<mapsto>
                       \<lparr>optimized = False, data = None, original_size = osize,
                        optimized_size = osize\<rparr>)\<rparr>)
              else (case replace_image_raises E (xref info) ob of
                      None \<Rightarrow>
                        (Inr (True, osize, int (length ob)),
                         st1\<lparr>trace := trace st1 @ [ReplaceImage (xref info) ob],
                             store := (store st)(xref info \<mapsto> base\<lparr>image_bytes := ob\<rparr>),
                             cache := (cache st)(d \<mapsto>
                               \<lparr>optimized = True, data = Some ob, original_size = osize,
                                optimized_size = int (length ob)\<rparr>)\<rparr>)
                    | Some e \<Rightarrow>
                        optimize_image_with_pil E page info opts
                          (st1\<lparr>trace := trace st1 @ [ReplaceImage (xref info) ob]\<rparr>)))"
    if det: "(if smask info \<noteq> 0 \<or> iext = ''png''
         then (case pil_open E ib of
                 Inl e \<Rightarrow> Inl e
               | Inr im \<Rightarrow> Inr (has_transparency im (smask info \<noteq> 0)))
         else Inr False) = Inr has_alpha"
      and enc: "optimize_image_with_pyvips E ib iext (width base) (height base) tw th has_alpha
            (image_quality opts) (convert_large_pngs_to_jpeg opts)
            (png_to_jpeg_threshold opts) osize bits st = (Inr ob, st1)"
    for has_alpha ob st1
  proof -
    from enc obtain evs where st1: "st1 = st\<lparr>trace := trace st @ evs\<rparr>"
      by (cases rule: optimize_image_with_pyvips_cases) auto
    then have same: "store st1 (xref info) = Some base" "cache st1 = cache st"
      "store st1 = store st"
      using assms(1) by simp_all
    have att: "pyvips_attempt E info opts d ib iext (width base) (height base) tw th osize bits st
        = acceptance_gate E (xref info) d osize ob st1"
      using det enc by (simp add: pyvips_attempt_def)
    note gate = acceptance_gate_result [OF same(1), of E d osize ob]
    have reach: "optimize_image E page info opts st =
        (case acceptance_gate E (xref info) d osize ob st1 of
           (Inr result, st') \<Rightarrow> (Inr result, st')
         | (Inl e, st') \<Rightarrow> optimize_image_with_pil E page info opts st')"
      using optimize_image_reaches_pyvips [OF route] att
      by (simp add: assms(2-6))
    show ?thesis
      unfolding reach gate same(2,3)
      by (simp split: option.splits)
  qed
  have secondary: "optimize_image_with_pil E page info opts s2 =
             (if gate_bound (float_round E) osize \<le> of_int (int (length ob))
              then (Inr (False, osize, osize),
                    s3\<lparr>cache := (cache st)(d \<mapsto>
                       \<lparr>optimized = False, data = None, original_size = osize,
                        optimized_size = osize\<rparr>)\<rparr>)
              else (case replace_image_raises E (xref info) ob of
                      None \<Rightarrow>
                        (Inr (True, osize, int (length ob)),
                         s3\<lparr>trace := trace s3 @ [ReplaceImage (xref info) ob],
                            store := (store st)(xref info \<mapsto> base\<lparr>image_bytes := ob\<rparr>),
                            cache := (cache st)(d \<mapsto>
                              \<lparr>optimized = True, data = Some ob, original_size = osize,
                               optimized_size = int (length ob)\<rparr>)\<rparr>)
                    | Some e \<Rightarrow>
                        (Inl e, s3\<lparr>trace := trace s3 @ [ReplaceImage (xref info) ob]\<rparr>)))"
    if eq: "store s2 = store st" "cache s2 = cache st"
      and stage: "pil_stage E ib iext (width base) (height base) tw th (smask info \<noteq> 0)
              (image_quality opts) (convert_large_pngs_to_jpeg opts)
              (png_to_jpeg_threshold opts) osize bits s2 = (Inr ob, s3)"
    for s2 ob s3
  proof -
    from stage obtain evs where s3: "s3 = s2\<lparr>trace := trace s2 @ evs\<rparr>"
      by (cases rule: pil_stage_cases) auto
    then have same: "store s3 (xref info) = Some base" "cache s3 = cache st"
      "store s3 = store st"
      using assms(1) eq by simp_all
    have route2: "store s2 (xref info) = Some base"
      "cache s2 (sha1 E (image_bytes base)) = None"
      using route(1,2) eq by simp_all
    note gate = acceptance_gate_result [OF same(1), of E d osize ob]
    have reach: "optimize_image_with_pil E page info opts s2 =
        acceptance_gate E (xref info) d osize ob s3"
      using optimize_image_with_pil_reaches_stage [OF route2 route(3,4,5)] stage
      by (simp add: assms(2-6))
    show ?thesis
      unfolding reach gate same(2,3) by simp
  qed
  have fallback: "optimize_image E page info opts st = optimize_image_with_pil E page info opts st1
              \<and> store st1 = store st \<and> cache st1 = cache st"
    if att: "pyvips_attempt E info opts d ib iext (width base) (height base) tw th osize bits st
            = (Inl e, st1)"
    for e st1
  proof -
    have "optimize_image E page info opts st = optimize_image_with_pil E page info opts st1"
      using optimize_image_reaches_pyvips [OF route] att by (simp add: assms(2-6))
    moreover have "store st1 = store st \<and> cache st1 = cache st"
      using pyvips_attempt_error_unchanged [OF route(1,2)] att by (simp add: assms(2-6))
    ultimately show ?thesis by simp
  qed
  have general: "(store s' = store s
           \<or> (\<exists>base' stream c a b. store s (xref info') = Some base' \<and> r = Inr (True, a, b)
                 \<and> store s' = (store s)(xref info' \<mapsto> base'\<lparr>image_bytes := stream\<rparr>)
                 \<and> cache s' (sha1 E (image_bytes base')) = Some c \<and> optimized c
                 \<and> data c = Some stream))
          \<and> (\<forall>base' a b. store s (xref info') = Some base'
                 \<and> cache s (sha1 E (image_bytes base')) = None \<and> r = Inr (True, a, b) \<longrightarrow>
                 a = int (length (image_bytes base'))
                 \<and> (of_int b :: rat) < gate_bound (float_round E) a)
          \<and> (\<forall>base' a b. store s (xref info') = Some base'
                 \<and> cache s (sha1 E (image_bytes base')) = None \<and> r = Inr (False, a, b) \<longrightarrow>
                 a = int (length (image_bytes base')) \<and> b = a \<and> store s' = store s
                 \<and> cache s' (sha1 E (image_bytes base'))
                     = Some \<lparr>optimized = False, data = None, original_size = a,
                             optimized_size = a\<rparr>)"
    if run: "optimize_image E page' info' opts' s = (r, s')" for page' info' opts' s r s'
    using optimize_image_mutates_only_accepted [OF run]
      optimize_image_fresh_accept [OF run] optimize_image_fresh_reject [OF run]
    by blast
  from primary secondary fallback general show ?thesis by blast
qed

text \<open>
  On the first image of \<open>twin_document\<close>: the primary backend halves the ten bytes and
  the output is accepted; where the backends gain nothing the output is rejected; where
  the primary backend is not installed the secondary backend's output is accepted.
\<close>

theorem acceptance_gate_decides_witness:
  "store (initial_state twin_document) (xref \<lparr>xref = 1, smask = 0\<rparr>) = Some sample_image
   \<and> cache (initial_state twin_document) (sha1 sample_env (image_bytes sample_image)) = None
   \<and> \<not> (skip_small_images sample_options
          \<and> int (length (image_bytes sample_image)) \<le> small_image_threshold sample_options)
   \<and> compute_target_dimensions (float_round sample_env) (get_image_bbox sample_env) 0
        \<lparr>xref = 1, smask = 0\<rparr> (width sample_image) (height sample_image)
        (max_dpi sample_options) = Inr (10, 10)
   \<and> optimize_image_with_pyvips sample_env ''aaaaaaaaaa'' ''jpeg'' 10 10 10 10 False 90 True
        200000 10 8 (initial_state twin_document)
       = (Inr ''aaaaa'',
          (initial_state twin_document)\<lparr>trace := [VipsEncode ''aaaaaaaaaa'' None (VipsJpeg 90)]\<rparr>)
   \<and> \<not> gate_bound (float_round sample_env) 10 \<le> of_int (int (length ''aaaaa''))
   \<and> optimize_image sample_env 0 \<lparr>xref = 1, smask = 0\<rparr> sample_options
        (initial_state twin_document)
       = (Inr (True, 10, 5), after_first_twin)
   \<and> optimize_image_with_pyvips no_gain_env ''aaaaaaaaaa'' ''jpeg'' 10 10 10 10 False 90 True
        200000 10 8 (initial_state twin_document)
       = (Inr ''aaaaaaaaaa'',
          (initial_state twin_document)\<lparr>trace := [VipsEncode ''aaaaaaaaaa'' None (VipsJpeg 90)]\<rparr>)
   \<and> gate_bound (float_round no_gain_env) 10 \<le> of_int (int (length ''aaaaaaaaaa''))
   \<and> optimize_image no_gain_env 0 \<lparr>xref = 1, smask = 0\<rparr> sample_options
        (initial_state twin_document)
       = (Inr (False, 10, 10),
          \<lparr>store = objects twin_document,
           cache = [''aaaaaaaaaa'' \<mapsto>
             \<lparr>optimized = False, data = None, original_size = 10, optimized_size = 10\<rparr>],
           trace = [VipsEncode ''aaaaaaaaaa'' None (VipsJpeg 90)]\<rparr>)
   \<and> pyvips_attempt pil_only_env \<lparr>xref = 1, smask = 0\<rparr> sample_options ''aaaaaaaaaa''
        ''aaaaaaaaaa'' ''jpeg'' 10 10 10 10 10 8 (initial_state twin_document)
       = (Inl RuntimeError, initial_state twin_document)
   \<and> pil_stage pil_only_env ''aaaaaaaaaa'' ''jpeg'' 10 10 10 10 False 90 True 200000 10 8
        (initial_state twin_document)
       = (Inr ''aaaaa'',
          (initial_state twin_document)\<lparr>trace :=
             [PilEncode \<lparr>pil_source = ''aaaaaaaaaa'', pil_resize = None, pil_mode = ''RGB'',
                pil_format = ''JPEG'', pil_save_kwargs = JpegKwargs 90\<rparr>]\<rparr>)
   \<and> optimize_image pil_only_env 0 \<lparr>xref = 1, smask = 0\<rparr> sample_options
        (initial_state twin_document)
       = (Inr (True, 10, 5),
          \<lparr>store = [2 \<mapsto> sample_image, 1 \<mapsto> sample_image\<lparr>image_bytes := ''aaaaa''\<rparr>],
           cache = [''aaaaaaaaaa'' \<mapsto>
             \<lparr>optimized = True, data = Some ''aaaaa'', original_size = 10, optimized_size = 5\<rparr>],
           trace =
             [PilEncode \<lparr>pil_source = ''aaaaaaaaaa'', pil_resize = None, pil_mode = ''RGB'',
                pil_format = ''JPEG'', pil_save_kwargs = JpegKwargs 90\<rparr>,
              ReplaceImage 1 ''aaaaa'']\<rparr>)"
proof -
  have h1: "store (initial_state twin_document) (xref \<lparr>xref = 1, smask = 0\<rparr>) = Some sample_image"
    by (simp add: initial_state_def twin_document_def)
  have h2: "''aaaaaaaaaa'' = image_bytes sample_image"
    and h5: "''jpeg'' = lower (ext sample_image)"
    and h6: "(8::int) = (case bpc sample_image of None \<Rightarrow> 8 | Some v \<Rightarrow> v)"
    by (simp_all add: sample_image_def lower_def lower_char_def)
  have h3: "''aaaaaaaaaa'' = sha1 sample_env ''aaaaaaaaaa''"
    "''aaaaaaaaaa'' = sha1 no_gain_env ''aaaaaaaaaa''"
    "''aaaaaaaaaa'' = sha1 pil_only_env ''aaaaaaaaaa''"
    by (simp_all add: sample_env_def no_gain_env_def pil_only_env_def)
  have h4: "(10::int) = int (length ''aaaaaaaaaa'')" by simp
  have h7: "cache (initial_state twin_document) ''aaaaaaaaaa'' = None"
    by (simp add: initial_state_def)
  have h8: "\<not> (skip_small_images sample_options \<and> 10 \<le> small_image_threshold sample_options)"
    by (simp add: sample_options_def)
  have h9: "\<not> ((8::int) \<le> 1 \<and> ''jpeg'' \<noteq> ''png'')" by simp
  have h10: "compute_target_dimensions (float_round sample_env) (get_image_bbox sample_env) 0 \<lparr>xref = 1, smask = 0\<rparr>
        (width sample_image) (height sample_image) (max_dpi sample_options) = Inr (10, 10)"
    "compute_target_dimensions (float_round no_gain_env) (get_image_bbox no_gain_env) 0 \<lparr>xref = 1, smask = 0\<rparr>
        (width sample_image) (height sample_image) (max_dpi sample_options) = Inr (10, 10)"
    "compute_target_dimensions (float_round pil_only_env) (get_image_bbox pil_only_env) 0 \<lparr>xref = 1, smask = 0\<rparr>
        (width sample_image) (height sample_image) (max_dpi sample_options) = Inr (10, 10)"
    by (simp_all add: eval_defs)
  have det: "(if smask \<lparr>xref = 1, smask = 0\<rparr> \<noteq> 0 \<or> ''jpeg'' = ''png''
         then (case pil_open E ''aaaaaaaaaa'' of
                 Inl e \<Rightarrow> Inl e
               | Inr im \<Rightarrow> Inr (has_transparency im (smask \<lparr>xref = 1, smask = 0\<rparr> \<noteq> 0)))
         else Inr False) = Inr False" for E :: env
    by simp
  have q: "image_quality sample_options = 90" "convert_large_pngs_to_jpeg sample_options = True"
    "png_to_jpeg_threshold sample_options = 200000"
    "width sample_image = 10" "height sample_image = 10"
    by (simp_all add: sample_options_def sample_image_def)
  have s1: "store (initial_state twin_document) (xref \<lparr>xref = 1, smask = 0\<rparr>) = Some sample_image"
    by (rule h1)
  have s2: "cache (initial_state twin_document) (sha1 sample_env (image_bytes sample_image)) = None"
    by (simp add: initial_state_def)
  have s3: "\<not> (skip_small_images sample_options
        \<and> int (length (image_bytes sample_image)) \<le> small_image_threshold sample_options)"
    by (simp add: sample_options_def)
  have s4: "compute_target_dimensions (float_round sample_env) (get_image_bbox sample_env) 0
      \<lparr>xref = 1, smask = 0\<rparr> (width sample_image) (height sample_image)
      (max_dpi sample_options) = Inr (10, 10)"
    by (rule h10)
  have e1: "optimize_image_with_pyvips sample_env ''aaaaaaaaaa'' ''jpeg'' 10 10 10 10 False 90 True
      200000 10 8 (initial_state twin_document)
     = (Inr ''aaaaa'',
        (initial_state twin_document)\<lparr>trace := [VipsEncode ''aaaaaaaaaa'' None (VipsJpeg 90)]\<rparr>)"
    by (simp add: eval_defs)
  have g1: "\<not> gate_bound (float_round sample_env) 10 \<le> of_int (int (length ''aaaaa''))"
    by (simp add: gate_bound_def sample_env_def exact_arithmetic_def)
  have e2: "optimize_image_with_pyvips no_gain_env ''aaaaaaaaaa'' ''jpeg'' 10 10 10 10 False 90 True
      200000 10 8 (initial_state twin_document)
     = (Inr ''aaaaaaaaaa'',
        (initial_state twin_document)\<lparr>trace := [VipsEncode ''aaaaaaaaaa'' None (VipsJpeg 90)]\<rparr>)"
    by (simp add: eval_defs)
  have g2: "gate_bound (float_round no_gain_env) 10 \<le> of_int (int (length ''aaaaaaaaaa''))"
    by (simp add: gate_bound_def sample_env_def no_gain_env_def exact_arithmetic_def)
  have a3: "pyvips_attempt pil_only_env \<lparr>xref = 1, smask = 0\<rparr> sample_options ''aaaaaaaaaa''
      ''aaaaaaaaaa'' ''jpeg'' 10 10 10 10 10 8 (initial_state twin_document)
     = (Inl RuntimeError, initial_state twin_document)"
    by (simp add: eval_defs)
  have e3: "pil_stage pil_only_env ''aaaaaaaaaa'' ''jpeg'' 10 10 10 10 False 90 True 200000 10 8
      (initial_state twin_document)
     = (Inr ''aaaaa'',
        (initial_state twin_document)\<lparr>trace :=
           [PilEncode \<lparr>pil_source = ''aaaaaaaaaa'', pil_resize = None, pil_mode = ''RGB'',
              pil_format = ''JPEG'', pil_save_kwargs = JpegKwargs 90\<rparr>]\<rparr>)"
    by (simp add: eval_defs)
  have g3: "\<not> gate_bound (float_round pil_only_env) 10 \<le> of_int (int (length ''aaaaa''))"
    by (simp add: gate_bound_def sample_env_def pil_only_env_def exact_arithmetic_def)
  have e1r: "optimize_image_with_pyvips sample_env ''aaaaaaaaaa'' ''jpeg''
        (width sample_image) (height sample_image) 10 10 False
        (image_quality sample_options) (convert_large_pngs_to_jpeg sample_options)
        (png_to_jpeg_threshold sample_options) 10 8 (initial_state twin_document)
      = (Inr ''aaaaa'',
         (initial_state twin_document)\<lparr>trace := [VipsEncode ''aaaaaaaaaa'' None (VipsJpeg 90)]\<rparr>)"
    using e1 by (simp add: q)
  have e2r: "optimize_image_with_pyvips no_gain_env ''aaaaaaaaaa'' ''jpeg''
        (width sample_image) (height sample_image) 10 10 False
        (image_quality sample_options) (convert_large_pngs_to_jpeg sample_options)
        (png_to_jpeg_threshold sample_options) 10 8 (initial_state twin_document)
      = (Inr ''aaaaaaaaaa'',
         (initial_state twin_document)\<lparr>trace := [VipsEncode ''aaaaaaaaaa'' None (VipsJpeg 90)]\<rparr>)"
    using e2 by (simp add: q)
  have a3r: "pyvips_attempt pil_only_env \<lparr>xref = 1, smask = 0\<rparr> sample_options ''aaaaaaaaaa''
        ''aaaaaaaaaa'' ''jpeg'' (width sample_image) (height sample_image) 10 10 10 8
        (initial_state twin_document)
      = (Inl RuntimeError, initial_state twin_document)"
    using a3 by (simp add: q)
  have e3r: "pil_stage pil_only_env ''aaaaaaaaaa'' ''jpeg'' (width sample_image)
        (height sample_image) 10 10 (smask \<lparr>xref = 1, smask = 0\<rparr> \<noteq> 0)
        (image_quality sample_options) (convert_large_pngs_to_jpeg sample_options)
        (png_to_jpeg_threshold sample_options) 10 8 (initial_state twin_document)
      = (Inr ''aaaaa'',
         (initial_state twin_document)\<lparr>trace :=
           [PilEncode \<lparr>pil_source = ''aaaaaaaaaa'', pil_resize = None, pil_mode = ''RGB'',
              pil_format = ''JPEG'', pil_save_kwargs = JpegKwargs 90\<rparr>]\<rparr>)"
    using e3 by (simp add: q)
  note t1 = acceptance_gate_decides [where E = sample_env and st = "initial_state twin_document"
      and info = "\<lparr>xref = 1, smask = 0\<rparr>" and base = sample_image and opts = sample_options
      and page = 0 and tw = 10 and th = 10 and ib = "''aaaaaaaaaa''" and d = "''aaaaaaaaaa''"
      and osize = 10 and iext = "''jpeg''" and bits = 8,
      OF h1 h2 h3(1) h4 h5 h6 h7 h8 h9 h10(1)]
  note t2 = acceptance_gate_decides [where E = no_gain_env and st = "initial_state twin_document"
      and info = "\<lparr>xref = 1, smask = 0\<rparr>" and base = sample_image and opts = sample_options
      and page = 0 and tw = 10 and th = 10 and ib = "''aaaaaaaaaa''" and d = "''aaaaaaaaaa''"
      and osize = 10 and iext = "''jpeg''" and bits = 8,
      OF h1 h2 h3(2) h4 h5 h6 h7 h8 h9 h10(2)]
  note t3 = acceptance_gate_decides [where E = pil_only_env and st = "initial_state twin_document"
      and info = "\<lparr>xref = 1, smask = 0\<rparr>" and base = sample_image and opts = sample_options
      and page = 0 and tw = 10 and th = 10 and ib = "''aaaaaaaaaa''" and d = "''aaaaaaaaaa''"
      and osize = 10 and iext = "''jpeg''" and bits = 8,
      OF h1 h2 h3(3) h4 h5 h6 h7 h8 h9 h10(3)]
  have r1: "optimize_image sample_env 0 \<lparr>xref = 1, smask = 0\<rparr> sample_options
      (initial_state twin_document)
     = (Inr (True, 10, 5), after_first_twin)"
    using t1 [THEN conjunct1, rule_format, OF conjI [OF det e1r]] g1
    by (simp add: initial_state_def twin_document_def after_first_twin_def sample_env_def)
  have r2: "optimize_image no_gain_env 0 \<lparr>xref = 1, smask = 0\<rparr> sample_options
      (initial_state twin_document)
     = (Inr (False, 10, 10),
        \<lparr>store = objects twin_document,
         cache = [''aaaaaaaaaa'' \<mapsto>
           \<lparr>optimized = False, data = None, original_size = 10, optimized_size = 10\<rparr>],
         trace = [VipsEncode ''aaaaaaaaaa'' None (VipsJpeg 90)]\<rparr>)"
    using t2 [THEN conjunct1, rule_format, OF conjI [OF det e2r]] g2
    by (simp add: initial_state_def twin_document_def no_gain_env_def sample_env_def)
  have f3: "optimize_image pil_only_env 0 \<lparr>xref = 1, smask = 0\<rparr> sample_options (initial_state twin_document)
      = optimize_image_with_pil pil_only_env 0 \<lparr>xref = 1, smask = 0\<rparr> sample_options
          (initial_state twin_document)"
    using t3 [THEN conjunct2, THEN conjunct2, THEN conjunct1, rule_format,
        OF a3r]
    by simp
  have r3: "optimize_image pil_only_env 0 \<lparr>xref = 1, smask = 0\<rparr> sample_options
      (initial_state twin_document)
     = (Inr (True, 10, 5),
        \<lparr>store = [2 \<mapsto> sample_image, 1 \<mapsto> sample_image\<lparr>image_bytes := ''aaaaa''\<rparr>],
         cache = [''aaaaaaaaaa'' \<mapsto>
           \<lparr>optimized = True, data = Some ''aaaaa'', original_size = 10, optimized_size = 5\<rparr>],
         trace =
           [PilEncode \<lparr>pil_source = ''aaaaaaaaaa'', pil_resize = None, pil_mode = ''RGB'',
              pil_format = ''JPEG'', pil_save_kwargs = JpegKwargs 90\<rparr>,
            ReplaceImage 1 ''aaaaa'']\<rparr>)"
    using t3 [THEN conjunct2, THEN conjunct1, rule_format,
        OF conjI [OF refl conjI [OF refl e3r]]] g3
    unfolding f3
    by (simp add: initial_state_def twin_document_def pil_only_env_def sample_env_def)
  show ?thesis
    by (intro conjI) (fact s1 s2 s3 s4 e1 g1 r1 e2 g2 r2 a3 e3 r3)+
qed

section \<open>Format policy\<close>











section \<open>Failure boundary of the compressor\<close>

lemma compress_document_result:
  "fst (compress_document E doc opts) =
     (case snd (iter_unique_images doc) of
        None \<Rightarrow> Inr (fst (compress_loop E
           (opts\<lparr>image_quality := max 1 (min (image_quality opts) 100), max_dpi := max_dpi opts\<rparr>)
           (fst (iter_unique_images doc)) (0, 0, 0) (initial_state doc)))
      | Some e \<Rightarrow> Inl e)"
proof -
  obtain items err where i: "iter_unique_images doc = (items, err)"
    by (cases "iter_unique_images doc")
  obtain totals st' where l: "compress_loop E
           (opts\<lparr>image_quality := max 1 (min (image_quality opts) 100), max_dpi := max_dpi opts\<rparr>)
           items (0, 0, 0) (initial_state doc) = (totals, st')"
    by (cases "compress_loop E
           (opts\<lparr>image_quality := max 1 (min (image_quality opts) 100), max_dpi := max_dpi opts\<rparr>)
           items (0, 0, 0) (initial_state doc)")
  show ?thesis
    unfolding compress_document_def Let_def i using l by (cases err) simp_all
qed

text \<open>
  Claim C5 as stated fails for enumeration: the handler encloses the call of
  \<open>optimize_image\<close> only, so an exception raised while the generator lists a page
  leaves \<open>_compress_document\<close>.
\<close>

theorem enumeration_failure_escapes:
  "fst (compress_document sample_env broken_page_document sample_options) = Inl RuntimeError"
  by (simp add: eval_defs)

text \<open>
  Claim C5, amended. Any exception raised by \<open>optimize_image\<close> for one image
  (extraction, dimension planning, transparency detection, encoding, acceptance,
  replacement) is caught at the per-image boundary: the stored images and the cache are
  as before the call, and the loop continues with the remaining images and the same
  totals. \<open>_compress_document\<close> raises exactly when the enumeration raises, and then
  with that exception.
\<close>

theorem image_failures_do_not_escape:
  "(\<forall>e st'. optimize_image E page info opts st = (Inl e, st') \<longrightarrow>
        store st' = store st \<and> cache st' = cache st
        \<and> compress_loop E opts ((page, info) # rest) totals st
            = compress_loop E opts rest totals st')
   \<and> (snd (iter_unique_images doc) = None \<longrightarrow>
        (\<exists>totals. fst (compress_document E doc opts) = Inr totals))
   \<and> (\<forall>e. snd (iter_unique_images doc) = Some e \<longrightarrow>
        fst (compress_document E doc opts) = Inl e)"
proof (intro conjI allI impI)
  fix e st'
  assume a: "optimize_image E page info opts st = (Inl e, st')"
  then show "store st' = store st" "cache st' = cache st"
    using optimize_image_error_unchanged by blast+
  from a show "compress_loop E opts ((page, info) # rest) totals st
            = compress_loop E opts rest totals st'"
    by (rule compress_loop_error_continues)
next
  assume "snd (iter_unique_images doc) = None"
  then have "fst (compress_document E doc opts) =
      Inr (fst (compress_loop E
           (opts\<lparr>image_quality := max 1 (min (image_quality opts) 100), max_dpi := max_dpi opts\<rparr>)
           (fst (iter_unique_images doc)) (0, 0, 0) (initial_state doc)))"
    by (simp add: compress_document_result)
  then show "\<exists>totals. fst (compress_document E doc opts) = Inr totals" by blast
next
  fix e
  assume "snd (iter_unique_images doc) = Some e"
  then show "fst (compress_document E doc opts) = Inl e"
    by (simp add: compress_document_result)
qed

theorem image_failures_do_not_escape_witness:
  "optimize_image failing_backends_env 0 \<lparr>xref = 1, smask = 0\<rparr> sample_options
      (initial_state twin_document)
     = (Inl RuntimeError,
        (initial_state twin_document)\<lparr>trace :=
           [VipsEncode ''aaaaaaaaaa'' None (VipsJpeg 90),
            PilEncode \<lparr>pil_source = ''aaaaaaaaaa'', pil_resize = None, pil_mode = ''RGB'',
                       pil_format = ''JPEG'', pil_save_kwargs = JpegKwargs 90\<rparr>]\<rparr>)
   \<and> snd (iter_unique_images twin_document) = None
   \<and> fst (compress_document failing_backends_env twin_document sample_options) = Inr (0, 0, 0)
   \<and> store (snd (compress_document failing_backends_env twin_document sample_options))
       = objects twin_document
   \<and> snd (iter_unique_images broken_page_document) = Some RuntimeError
   \<and> fst (compress_document failing_backends_env broken_page_document sample_options)
       = Inl RuntimeError"
proof -
  have a: "optimize_image failing_backends_env 0 \<lparr>xref = 1, smask = 0\<rparr> sample_options
      (initial_state twin_document)
     = (Inl RuntimeError,
        (initial_state twin_document)\<lparr>trace :=
           [VipsEncode ''aaaaaaaaaa'' None (VipsJpeg 90),
            PilEncode \<lparr>pil_source = ''aaaaaaaaaa'', pil_resize = None, pil_mode = ''RGB'',
                       pil_format = ''JPEG'', pil_save_kwargs = JpegKwargs 90\<rparr>]\<rparr>)"
    by (simp add: eval_defs)
  have b: "snd (iter_unique_images twin_document) = None"
    by (simp add: eval_defs)
  have c: "fst (compress_document failing_backends_env twin_document sample_options) = Inr (0, 0, 0)"
    by (simp add: eval_defs)
  have d: "store (snd (compress_document failing_backends_env twin_document sample_options))
       = objects twin_document"
    by (simp add: eval_defs)
  have e: "snd (iter_unique_images broken_page_document) = Some RuntimeError"
    by (simp add: eval_defs)
  from image_failures_do_not_escape [of failing_backends_env 0 "\<lparr>xref = 1, smask = 0\<rparr>"
      sample_options "initial_state twin_document" "[]" "(0, 0, 0)" broken_page_document] e
  have f: "fst (compress_document failing_backends_env broken_page_document sample_options)
       = Inl RuntimeError"
    by blast
  from a b c d e f show ?thesis by blast
qed

section \<open>Low bit depth\<close>

lemma optimize_image_low_bit_miss:
  assumes "store st (xref info) = Some base"
    and "(case bpc base of None \<Rightarrow> 8 | Some v \<Rightarrow> v) \<le> 1"
    and "lower (ext base) \<noteq> ''png''"
    and "cache st (sha1 E (image_bytes base)) = None"
  shows "optimize_image E page info opts st =
           (Inr (False, int (length (image_bytes base)), int (length (image_bytes base))),
            record_unoptimized (sha1 E (image_bytes base)) (int (length (image_bytes base))) st)"
  using assms by (simp add: optimize_image_def extract_image_def Let_def)

text \<open>
  Claim C9 as stated fails on a cache hit: the cache is consulted before the bit depth.
  An image declared with one bit per component and format jpeg, whose raw bytes equal
  those of an image accepted earlier in the run, is replaced by the cached bytes.
\<close>

theorem low_bit_depth_twin_is_replaced:
  "map_option bpc (objects mixed_depth_document 2) = Some (Some 1)
   \<and> map_option (\<lambda>b. lower (ext b)) (objects mixed_depth_document 2) = Some ''jpeg''
   \<and> map_option image_bytes (objects mixed_depth_document 2) = Some ''aaaaaaaaaa''
   \<and> map_option image_bytes
        (store (snd (compress_document sample_env mixed_depth_document sample_options)) 2)
       = Some ''aaaaa''
   \<and> ReplaceImage 2 ''aaaaa''
        \<in> set (trace (snd (compress_document sample_env mixed_depth_document sample_options)))"
  by (simp add: eval_defs)

text \<open>
  Claim C9, amended. For every image with bits per component at most 1 and a format
  extension other than png: when its digest is not a key of the cache,
  \<open>optimize_image\<close> records the unoptimised entry, makes no external call, leaves
  the stored bytes as they are and returns \<open>(False, original_size, original_size)\<close>;
  when its digest is cached with an entry that is not Accepted, it changes nothing and
  returns \<open>False\<close> with the cached original size twice.
\<close>

theorem low_bit_depth_is_skipped:
  assumes "store st (xref info) = Some base"
    and "(case bpc base of None \<Rightarrow> 8 | Some v \<Rightarrow> v) \<le> 1"
    and "lower (ext base) \<noteq> ''png''"
  shows "(cache st (sha1 E (image_bytes base)) = None \<longrightarrow>
            optimize_image E page info opts st =
              (Inr (False, int (length (image_bytes base)), int (length (image_bytes base))),
               st\<lparr>cache := (cache st)(sha1 E (image_bytes base) \<mapsto>
                     \<lparr>optimized = False, data = None,
                      original_size = int (length (image_bytes base)),
                      optimized_size = int (length (image_bytes base))\<rparr>)\<rparr>))
       \<and> (\<forall>c. cache st (sha1 E (image_bytes base)) = Some c \<and> \<not> (optimized c \<and> data c \<noteq> None) \<longrightarrow>
            optimize_image E page info opts st =
              (Inr (False, original_size c, original_size c), st))"
proof (intro conjI allI impI)
  assume "cache st (sha1 E (image_bytes base)) = None"
  with assms show "optimize_image E page info opts st =
              (Inr (False, int (length (image_bytes base)), int (length (image_bytes base))),
               st\<lparr>cache := (cache st)(sha1 E (image_bytes base) \<mapsto>
                     \<lparr>optimized = False, data = None,
                      original_size = int (length (image_bytes base)),
                      optimized_size = int (length (image_bytes base))\<rparr>)\<rparr>)"
    by (simp add: optimize_image_low_bit_miss record_unoptimized_def)
next
  fix c
  assume h: "cache st (sha1 E (image_bytes base)) = Some c \<and> \<not> (optimized c \<and> data c \<noteq> None)"
  with assms(1) have "optimize_image E page info opts st = replay_cached E (xref info) c st"
    by (simp add: optimize_image_hit)
  with h assms(1) show "optimize_image E page info opts st =
              (Inr (False, original_size c, original_size c), st)"
    by (auto simp: replay_cached_present)
qed

theorem low_bit_depth_is_skipped_witness:
  "store (initial_state mixed_depth_document) (xref \<lparr>xref = 2, smask = 0\<rparr>)
      = Some (sample_image\<lparr>bpc := Some 1\<rparr>)
   \<and> (case bpc (sample_image\<lparr>bpc := Some 1\<rparr>) of None \<Rightarrow> 8 | Some v \<Rightarrow> v) \<le> 1
   \<and> lower (ext (sample_image\<lparr>bpc := Some 1\<rparr>)) \<noteq> ''png''
   \<and> cache (initial_state mixed_depth_document) (sha1 sample_env ''aaaaaaaaaa'') = None
   \<and> optimize_image sample_env 0 \<lparr>xref = 2, smask = 0\<rparr> sample_options
        (initial_state mixed_depth_document)
      = (Inr (False, 10, 10),
         (initial_state mixed_depth_document)\<lparr>cache := [''aaaaaaaaaa'' \<mapsto>
            \<lparr>optimized = False, data = None, original_size = 10, optimized_size = 10\<rparr>]\<rparr>)"
proof -
  have h1: "store (initial_state mixed_depth_document) (xref \<lparr>xref = 2, smask = 0\<rparr>)
      = Some (sample_image\<lparr>bpc := Some 1\<rparr>)"
    by (simp add: eval_defs)
  have h2: "(case bpc (sample_image\<lparr>bpc := Some 1\<rparr>) of None \<Rightarrow> 8 | Some v \<Rightarrow> v) \<le> 1"
    by simp
  have h3: "lower (ext (sample_image\<lparr>bpc := Some 1\<rparr>)) \<noteq> ''png''"
    by (simp add: eval_defs)
  have h4: "cache (initial_state mixed_depth_document) (sha1 sample_env ''aaaaaaaaaa'') = None"
    by (simp add: eval_defs)
  have h5: "image_bytes (sample_image\<lparr>bpc := Some 1\<rparr>) = ''aaaaaaaaaa''"
    "sha1 sample_env ''aaaaaaaaaa'' = ''aaaaaaaaaa''"
    "cache (initial_state mixed_depth_document) = Map.empty"
    by (simp_all add: sample_image_def sample_env_def initial_state_def)
  from low_bit_depth_is_skipped [OF h1 h2 h3, of sample_env 0 sample_options] h4 h5
  have "optimize_image sample_env 0 \<lparr>xref = 2, smask = 0\<rparr> sample_options
        (initial_state mixed_depth_document)
      = (Inr (False, 10, 10),
         (initial_state mixed_depth_document)\<lparr>cache := [''aaaaaaaaaa'' \<mapsto>
            \<lparr>optimized = False, data = None, original_size = 10, optimized_size = 10\<rparr>]\<rparr>)"
    by simp
  with h1 h2 h3 h4 show ?thesis by blast
qed

end
